theory Spec2Isabelle
  imports Complex_Main "HOL-Library.Sublist" "HOL-Library.Multiset" "HOL-Library.Char_ord"
    "HOL-Library.List_Lexorder" "HOL-Library.Product_Lexorder"
begin

section \<open>Pinyin converter (src/core/pinyin_converter.cpp)\<close>

text \<open>
  A \<open>std::string\<close> is a list of bytes (\<open>char list\<close>); a \<open>std::map\<close> whose values are
  never read is a partial map of which only the domain matters.
\<close>

definition STANDARD_PINYINS :: "string list" where
  "STANDARD_PINYINS =
    [''a'', ''ai'', ''an'', ''ang'', ''ao'',
     ''ba'', ''bai'', ''ban'', ''bang'', ''bao'', ''bei'', ''ben'', ''beng'', ''bi'', ''bian'', ''biao'', ''bie'', ''bin'', ''bing'', ''bo'', ''bu'',
     ''ca'', ''cai'', ''can'', ''cang'', ''cao'', ''ce'', ''cen'', ''ceng'', ''cha'', ''chai'', ''chan'', ''chang'', ''chao'', ''che'', ''chen'', ''cheng'', ''chi'', ''chong'', ''chou'', ''chu'', ''chuai'', ''chuan'', ''chuang'', ''chui'', ''chun'', ''chuo'', ''ci'', ''cong'', ''cou'', ''cu'', ''cuan'', ''cui'', ''cun'', ''cuo'',
     ''da'', ''dai'', ''dan'', ''dang'', ''dao'', ''de'', ''deng'', ''di'', ''dian'', ''diao'', ''die'', ''ding'', ''diu'', ''dong'', ''dou'', ''du'', ''duan'', ''dui'', ''dun'', ''duo'',
     ''e'', ''en'', ''er'',
     ''fa'', ''fan'', ''fang'', ''fei'', ''fen'', ''feng'', ''fo'', ''fou'', ''fu'',
     ''ga'', ''gai'', ''gan'', ''gang'', ''gao'', ''ge'', ''gei'', ''gen'', ''geng'', ''gong'', ''gou'', ''gu'', ''gua'', ''guai'', ''guan'', ''guang'', ''gui'', ''gun'', ''guo'',
     ''ha'', ''hai'', ''han'', ''hang'', ''hao'', ''he'', ''hei'', ''hen'', ''heng'', ''hong'', ''hou'', ''hu'', ''hua'', ''huai'', ''huan'', ''huang'', ''hui'', ''hun'', ''huo'',
     ''ji'', ''jia'', ''jian'', ''jiang'', ''jiao'', ''jie'', ''jin'', ''jing'', ''jiong'', ''jiu'', ''ju'', ''juan'', ''jue'', ''jun'',
     ''ka'', ''kai'', ''kan'', ''kang'', ''kao'', ''ke'', ''ken'', ''keng'', ''kong'', ''kou'', ''ku'', ''kua'', ''kuai'', ''kuan'', ''kuang'', ''kui'', ''kun'', ''kuo'',
     ''la'', ''lai'', ''lan'', ''lang'', ''lao'', ''le'', ''lei'', ''leng'', ''li'', ''lia'', ''lian'', ''liang'', ''liao'', ''lie'', ''lin'', ''ling'', ''liu'', ''long'', ''lou'', ''lu'', ''luan'', ''lue'', ''lun'', ''luo'', ''lv'',
     ''ma'', ''mai'', ''man'', ''mang'', ''mao'', ''me'', ''mei'', ''men'', ''meng'', ''mi'', ''mian'', ''miao'', ''mie'', ''min'', ''ming'', ''miu'', ''mo'', ''mou'', ''mu'',
     ''na'', ''nai'', ''nan'', ''nang'', ''nao'', ''ne'', ''nei'', ''nen'', ''neng'', ''ni'', ''nian'', ''niang'', ''niao'', ''nie'', ''nin'', ''ning'', ''niu'', ''nong'', ''nu'', ''nuan'', ''nue'', ''nuo'', ''nv'',
     ''o'', ''ou'',
     ''pa'', ''pai'', ''pan'', ''pang'', ''pao'', ''pei'', ''pen'', ''peng'', ''pi'', ''pian'', ''piao'', ''pie'', ''pin'', ''ping'', ''po'', ''pou'', ''pu'',
     ''qi'', ''qia'', ''qian'', ''qiang'', ''qiao'', ''qie'', ''qin'', ''qing'', ''qiong'', ''qiu'', ''qu'', ''quan'', ''que'', ''qun'',
     ''ran'', ''rang'', ''rao'', ''re'', ''ren'', ''reng'', ''ri'', ''rong'', ''rou'', ''ru'', ''ruan'', ''rui'', ''run'', ''ruo'',
     ''sa'', ''sai'', ''san'', ''sang'', ''sao'', ''se'', ''sen'', ''seng'', ''sha'', ''shai'', ''shan'', ''shang'', ''shao'', ''she'', ''shen'', ''sheng'', ''shi'', ''shou'', ''shu'', ''shua'', ''shuai'', ''shuan'', ''shuang'', ''shui'', ''shun'', ''shuo'', ''si'', ''song'', ''sou'', ''su'', ''suan'', ''sui'', ''sun'', ''suo'',
     ''ta'', ''tai'', ''tan'', ''tang'', ''tao'', ''te'', ''teng'', ''ti'', ''tian'', ''tiao'', ''tie'', ''ting'', ''tong'', ''tou'', ''tu'', ''tuan'', ''tui'', ''tun'', ''tuo'',
     ''wa'', ''wai'', ''wan'', ''wang'', ''wei'', ''wen'', ''weng'', ''wo'', ''wu'',
     ''xi'', ''xia'', ''xian'', ''xiang'', ''xiao'', ''xie'', ''xin'', ''xing'', ''xiong'', ''xiu'', ''xu'', ''xuan'', ''xue'', ''xun'',
     ''ya'', ''yan'', ''yang'', ''yao'', ''ye'', ''yi'', ''yin'', ''ying'', ''yo'', ''yong'', ''you'', ''yu'', ''yuan'', ''yue'', ''yun'',
     ''za'', ''zai'', ''zan'', ''zang'', ''zao'', ''ze'', ''zei'', ''zen'', ''zeng'', ''zha'', ''zhai'', ''zhan'', ''zhang'', ''zhao'', ''zhe'', ''zhen'', ''zheng'', ''zhi'', ''zhong'', ''zhou'', ''zhu'', ''zhua'', ''zhuai'', ''zhuan'', ''zhuang'', ''zhui'', ''zhun'', ''zhuo'', ''zi'', ''zong'', ''zou'', ''zu'', ''zuan'', ''zui'', ''zun'', ''zuo'']"

record PinyinConverter =
  current_pinyin :: string
  valid_pinyins :: "string list"
  pinyin_map :: "string \<rightharpoonup> bool"
  valid_chars :: "char \<rightharpoonup> bool"

text \<open>The constructor: the loop \<open>for (char c = 'a'; c <= 'z'; ++c) valid_chars_[c] = true\<close>.\<close>

definition PinyinConverter_new :: PinyinConverter where
  "PinyinConverter_new =
     \<lparr> current_pinyin = [],
       valid_pinyins = [],
       pinyin_map = Map.empty,
       valid_chars = fold (\<lambda>c m. m(c \<mapsto> True)) ''abcdefghijklmnopqrstuvwxyz'' Map.empty \<rparr>"

definition loadPinyinData :: "PinyinConverter \<Rightarrow> bool \<times> PinyinConverter" where
  "loadPinyinData c =
     (let c1 = c\<lparr>valid_pinyins := STANDARD_PINYINS\<rparr>;
          c2 = c1\<lparr>pinyin_map := fold (\<lambda>p m. m(p \<mapsto> True)) (valid_pinyins c1) Map.empty\<rparr>
      in (True, c2))"

definition initialize_converter :: "PinyinConverter \<Rightarrow> bool \<times> PinyinConverter" where
  "initialize_converter c =
     (case loadPinyinData c of
        (ok, c') \<Rightarrow> if \<not> ok then (False, c') else (True, c'))"

text \<open>
  \<open>addChar\<close>: the early return on a character outside \<open>valid_chars_\<close>, then the scan of
  \<open>valid_pinyins_\<close> for an entry \<open>pinyin\<close> with
  \<open>pinyin.length() >= test_pinyin.length() && pinyin.substr(0, test_pinyin.length()) == test_pinyin\<close>.
\<close>

definition addChar :: "char \<Rightarrow> PinyinConverter \<Rightarrow> bool \<times> PinyinConverter" where
  "addChar ch c =
     (if valid_chars c ch = None then (False, c)
      else
        let test_pinyin = current_pinyin c @ [ch];
            has_valid_prefix =
              list_ex (\<lambda>pinyin. length pinyin \<ge> length test_pinyin \<and>
                                 take (length test_pinyin) pinyin = test_pinyin)
                      (valid_pinyins c)
        in if has_valid_prefix then (True, c\<lparr>current_pinyin := current_pinyin c @ [ch]\<rparr>)
           else (False, c))"

definition removeLastChar :: "PinyinConverter \<Rightarrow> bool \<times> PinyinConverter" where
  "removeLastChar c =
     (if current_pinyin c = [] then (False, c)
      else (True, c\<lparr>current_pinyin := butlast (current_pinyin c)\<rparr>))"

definition clear :: "PinyinConverter \<Rightarrow> PinyinConverter" where
  "clear c = c\<lparr>current_pinyin := []\<rparr>"

definition getCurrentPinyin :: "PinyinConverter \<Rightarrow> string" where
  "getCurrentPinyin c = current_pinyin c"

definition isValidPinyin :: "PinyinConverter \<Rightarrow> string \<Rightarrow> bool" where
  "isValidPinyin c pinyin = (pinyin_map c pinyin \<noteq> None)"

text \<open>
  \<open>segmentPinyinRecursive\<close> appends to the out-parameter \<open>results\<close>; the model threads it
  through. \<open>segment_loop\<close> is the \<open>for (len = 1; len <= pinyin.length() - start; ++len)\<close>
  loop of its body; \<open>push_back\<close>/\<open>pop_back\<close> on \<open>current\<close> become the argument
  \<open>current @ [segment]\<close> of the recursive call.
\<close>

function segmentPinyinRecursive ::
    "PinyinConverter \<Rightarrow> string \<Rightarrow> nat \<Rightarrow> string list \<Rightarrow> string list list \<Rightarrow> string list list"
  and segment_loop ::
    "PinyinConverter \<Rightarrow> string \<Rightarrow> nat \<Rightarrow> nat \<Rightarrow> string list \<Rightarrow> string list list \<Rightarrow> string list list"
where
  "segmentPinyinRecursive c pinyin start current results =
     (if start \<ge> length pinyin
      then (if current \<noteq> [] then results @ [current] else results)
      else segment_loop c pinyin start 1 current results)"
| "segment_loop c pinyin start len current results =
     (if 0 < len \<and> len \<le> length pinyin - start
      then
        let segment = take len (drop start pinyin);
            results' = (if isValidPinyin c segment
                        then segmentPinyinRecursive c pinyin (start + len) (current @ [segment]) results
                        else results)
        in segment_loop c pinyin start (len + 1) current results'
      else results)"
  by pat_completeness auto
termination
  by (relation "measures
        [\<lambda>x. case x of Inl (c, p, s, cur, rs) \<Rightarrow> length p - s
                       | Inr (c, p, s, len, cur, rs) \<Rightarrow> length p - s,
         \<lambda>x. case x of Inl (c, p, s, cur, rs) \<Rightarrow> length p + 2
                       | Inr (c, p, s, len, cur, rs) \<Rightarrow> length p + 1 - len]")
     auto

definition getPinyinSegments :: "PinyinConverter \<Rightarrow> string list list" where
  "getPinyinSegments c =
     (if current_pinyin c = [] then []
      else segmentPinyinRecursive c (current_pinyin c) 0 [] [])"

datatype converter_op = AddChar char | RemoveLastChar | Clear

fun apply_converter_op :: "PinyinConverter \<Rightarrow> converter_op \<Rightarrow> PinyinConverter" where
  "apply_converter_op c (AddChar ch) = snd (addChar ch c)"
| "apply_converter_op c RemoveLastChar = snd (removeLastChar c)"
| "apply_converter_op c Clear = clear c"


section \<open>Candidates (include/core/types.h)\<close>

text \<open>
  \<open>double\<close> scores are modelled by exact rationals (rounding is not modelled); C++ \<open>int\<close>
  values are mathematical integers.
\<close>

record Candidate =
  "text" :: string
  pinyin :: string
  score :: rat
  frequency :: int
  is_prediction :: bool

type_synonym CandidateList = "Candidate list"

datatype InputState = IDLE | COMPOSING | SELECTING

datatype InputEventType = KEY_PRESS | KEY_RELEASE | CANDIDATE_SELECT | COMMIT_TEXT | CLEAR_COMPOSITION

record InputEvent =
  event_type :: InputEventType
  data :: string
  key_code :: int

record EngineConfig =
  max_candidates :: int
  enable_prediction :: bool
  enable_learning :: bool
  prediction_threshold :: rat

section \<open>C++ library behaviour used by the core\<close>

text \<open>\<open>std::string::c_str()\<close> read as a NUL-terminated string (by \<open>sqlite3_bind_text(..., -1, ...)\<close>).\<close>

definition c_str :: "string \<Rightarrow> string" where
  "c_str s = takeWhile (\<lambda>c. c \<noteq> CHR 0x00) s"

text \<open>\<open>haystack.find(needle)\<close>: the first position at which \<open>needle\<close> occurs, \<open>None\<close> for \<open>npos\<close>.\<close>

fun str_find :: "string \<Rightarrow> string \<Rightarrow> nat option" where
  "str_find [] needle = (if needle = [] then Some 0 else None)"
| "str_find (h # hs) needle =
     (if prefix needle (h # hs) then Some 0 else map_option Suc (str_find hs needle))"

text \<open>\<open>static_cast<size_t>(n)\<close> of an \<open>int\<close> on a 64-bit target.\<close>

definition size_t_of_int :: "int \<Rightarrow> nat" where
  "size_t_of_int n = nat (n mod 2 ^ 64)"

text \<open>Joining with single spaces, as the loops \<open>if (i > 0) s += " "; s += xs[i]\<close> do.\<close>

fun join_spaces :: "string list \<Rightarrow> string" where
  "join_spaces [] = []"
| "join_spaces [x] = x"
| "join_spaces (x # y # ys) = x @ '' '' @ join_spaces (y # ys)"

text \<open>
  \<open>std::sort\<close> with the comparison \<open>a.score > b.score\<close> is not part of the repository. The
  C++ standard promises a permutation of the input in which no later element compares
  before an earlier one, and nothing about the order of elements with equal scores. The
  functions that call it take the sorting function as a parameter; \<open>std_sort_ok\<close> is the
  contract.
\<close>

definition std_sort_ok :: "(CandidateList \<Rightarrow> CandidateList) \<Rightarrow> bool" where
  "std_sort_ok srt \<longleftrightarrow>
     (\<forall>xs. mset (srt xs) = mset xs \<and> sorted_wrt (\<lambda>a b. \<not> score b > score a) (srt xs))"

text \<open>Two sorting functions that meet the contract: one keeps ties in place, one reverses them.\<close>

definition stable_sort_desc :: "CandidateList \<Rightarrow> CandidateList" where
  "stable_sort_desc xs = sort_key (\<lambda>c. - score c) xs"

definition reversing_sort_desc :: "CandidateList \<Rightarrow> CandidateList" where
  "reversing_sort_desc xs = rev (sort_key score xs)"

section \<open>Dictionary manager (src/core/dictionary_manager.cpp)\<close>

text \<open>
  The SQLite table \<open>words\<close> is a list of rows in rowid order; \<open>UNIQUE(word, pinyin)\<close> is an
  invariant of it. Timestamps are not modelled. Every statement is assumed to prepare and
  step without an SQLite error (the database is open and the schema exists).
\<close>

record DictRow =
  word :: string
  row_pinyin :: string
  row_frequency :: int
  is_user_word :: bool

type_synonym Database = "DictRow list"

definition unique_rows :: "Database \<Rightarrow> bool" where
  "unique_rows db = distinct (map (\<lambda>r. (word r, row_pinyin r)) db)"

text \<open>
  SQLite's default \<open>LIKE\<close>: \<open>%\<close> matches any run of characters, \<open>_\<close> one character, any other
  pattern character matches itself, ASCII letters without regard to case. One character is
  one UTF-8 sequence (\<open>utf8_skip_char\<close> steps over it as SQLite's reader does).
\<close>

definition ascii_lower :: "char \<Rightarrow> char" where
  "ascii_lower c =
     (if CHR ''A'' \<le> c \<and> c \<le> CHR ''Z'' then char_of (of_char c + (32::nat)) else c)"

definition utf8_skip_char :: "string \<Rightarrow> string" where
  "utf8_skip_char s =
     (case s of
        [] \<Rightarrow> []
      | c # cs \<Rightarrow> if (192::nat) \<le> of_char c
                  then dropWhile (\<lambda>d. (of_char d :: nat) div 64 = 2) cs
                  else cs)"

function like_match :: "string \<Rightarrow> string \<Rightarrow> bool" where
  "like_match [] s = (s = [])"
| "like_match (p # ps) s =
     (if p = CHR ''%''
      then (if like_match ps s then True
            else if s = [] then False
            else like_match (p # ps) (utf8_skip_char s))
      else if s = [] then False
      else if p = CHR ''_'' then like_match ps (utf8_skip_char s)
      else if ascii_lower p = ascii_lower (hd s) then like_match ps (tl s)
      else False)"
  by pat_completeness auto
termination
proof (relation "measure (\<lambda>(p, s). length p + length s)")
  show "wf (measure (\<lambda>(p, s). length p + length s))" by simp
next
  fix p :: char and ps s :: string
  show "((ps, s), p # ps, s) \<in> measure (\<lambda>(p, s). length p + length s)" by simp
next
  fix p :: char and ps s :: string
  assume "s \<noteq> []"
  then have "length (utf8_skip_char s) < length s"
    by (cases s) (auto simp: utf8_skip_char_def intro: le_imp_less_Suc length_dropWhile_le)
  then show "((p # ps, utf8_skip_char s), p # ps, s) \<in> measure (\<lambda>(p, s). length p + length s)"
    by simp
next
  fix p :: char and ps s :: string
  assume "s \<noteq> []"
  then have "length (utf8_skip_char s) < length s"
    by (cases s) (auto simp: utf8_skip_char_def intro: le_imp_less_Suc length_dropWhile_le)
  then show "((ps, utf8_skip_char s), p # ps, s) \<in> measure (\<lambda>(p, s). length p + length s)"
    by simp
next
  fix p :: char and ps s :: string
  assume "s \<noteq> []"
  then show "((ps, tl s), p # ps, s) \<in> measure (\<lambda>(p, s). length p + length s)"
    by (cases s) auto
qed

text \<open>SQLite's \<open>length()\<close> of a text value: its number of characters.\<close>

function utf8_length :: "string \<Rightarrow> nat" where
  "utf8_length s = (if s = [] then 0 else Suc (utf8_length (utf8_skip_char s)))"
  by pat_completeness auto
termination
proof (relation "measure length")
  show "wf (measure length)" by simp
next
  fix s :: string
  assume "s \<noteq> []"
  then have "length (utf8_skip_char s) < length s"
    by (cases s) (auto simp: utf8_skip_char_def intro: le_imp_less_Suc length_dropWhile_le)
  then show "(utf8_skip_char s, s) \<in> measure length" by simp
qed

text \<open>\<open>sqlite3_column_int\<close>: the low 32 bits of the stored integer, read as signed.\<close>

definition column_int :: "int \<Rightarrow> int" where
  "column_int v = (v + 2 ^ 31) mod 2 ^ 32 - 2 ^ 31"

text \<open>\<open>LIMIT n\<close>: a negative \<open>n\<close> means no limit.\<close>

definition sql_limit :: "int \<Rightarrow> 'a list \<Rightarrow> 'a list" where
  "sql_limit n xs = (if n < 0 then xs else take (nat n) xs)"

text \<open>
  \<open>ORDER BY frequency DESC, length(word) ASC\<close>. SQLite leaves the order of rows that agree
  on both keys open; the model keeps them in rowid order.
\<close>

definition order_rows :: "Database \<Rightarrow> Database" where
  "order_rows rows = sort_key (\<lambda>r. (- row_frequency r, utf8_length (word r))) rows"

text \<open>
  \<open>loadSystemDictionary\<close>: the built-in vocabulary (UTF-8 words with their pinyin), each
  inserted with frequency 100 as a system word unless its (word, pinyin) pair is already
  stored (\<open>INSERT OR IGNORE\<close>).
\<close>

definition basic_words :: "(string \<times> string) list" where
  "basic_words =
     [([CHR 0xE4, CHR 0xBD, CHR 0xA0, CHR 0xE5, CHR 0xA5, CHR 0xBD],
       ''ni hao''),
      ([CHR 0xE4, CHR 0xB8, CHR 0x96, CHR 0xE7, CHR 0x95, CHR 0x8C],
       ''shi jie''),
      ([CHR 0xE4, CHR 0xB8, CHR 0xAD, CHR 0xE5, CHR 0x9B, CHR 0xBD],
       ''zhong guo''),
      ([CHR 0xE8, CHR 0xBE, CHR 0x93, CHR 0xE5, CHR 0x85, CHR 0xA5, CHR 0xE6, CHR 0xB3, CHR 0x95],
       ''shu ru fa''),
      ([CHR 0xE8, CHR 0xAE, CHR 0xA1, CHR 0xE7, CHR 0xAE, CHR 0x97, CHR 0xE6, CHR 0x9C, CHR 0xBA],
       ''ji suan ji''),
      ([CHR 0xE7, CHR 0xA8, CHR 0x8B, CHR 0xE5, CHR 0xBA, CHR 0x8F],
       ''cheng xu''),
      ([CHR 0xE8, CHR 0xBD, CHR 0xAF, CHR 0xE4, CHR 0xBB, CHR 0xB6],
       ''ruan jian''),
      ([CHR 0xE5, CHR 0xBC, CHR 0x80, CHR 0xE5, CHR 0x8F, CHR 0x91],
       ''kai fa''),
      ([CHR 0xE6, CHR 0x8A, CHR 0x80, CHR 0xE6, CHR 0x9C, CHR 0xAF],
       ''ji shu''),
      ([CHR 0xE4, CHR 0xBA, CHR 0xBA, CHR 0xE5, CHR 0xB7, CHR 0xA5, CHR 0xE6, CHR 0x99, CHR 0xBA, CHR 0xE8, CHR 0x83, CHR 0xBD],
       ''ren gong zhi neng'')]"

definition insert_or_ignore :: "DictRow \<Rightarrow> Database \<Rightarrow> Database" where
  "insert_or_ignore r db =
     (if list_ex (\<lambda>r'. word r' = word r \<and> row_pinyin r' = row_pinyin r) db then db
      else db @ [r])"

definition loadSystemDictionary :: "Database \<Rightarrow> bool \<times> Database" where
  "loadSystemDictionary db =
     (True,
      fold (\<lambda>(w, p). insert_or_ignore
                \<lparr> word = c_str w, row_pinyin = c_str p, row_frequency = 100,
                  is_user_word = False \<rparr>)
           basic_words db)"

definition calculateScore :: "string \<Rightarrow> string \<Rightarrow> int \<Rightarrow> string \<Rightarrow> rat" where
  "calculateScore w word_pinyin freq input_pinyin =
     (let score0 = 0;
          score1 = score0 + min 50 (of_int freq / 10);
          score2 = score1 + max 0 (20 - of_nat (length w));
          score3 = (if word_pinyin = input_pinyin then score2 + 30
                    else if str_find word_pinyin input_pinyin = Some 0 then score2 + 20
                    else if str_find word_pinyin input_pinyin \<noteq> None then score2 + 10
                    else score2)
      in score3)"

definition row_candidate :: "string \<Rightarrow> DictRow \<Rightarrow> Candidate" where
  "row_candidate query r =
     (let w = word r; word_pinyin = row_pinyin r; freq = column_int (row_frequency r)
      in \<lparr> text = w, pinyin = word_pinyin,
            score = calculateScore w word_pinyin freq query,
            frequency = freq, is_prediction = False \<rparr>)"

definition searchByPinyin :: "Database \<Rightarrow> string \<Rightarrow> int \<Rightarrow> CandidateList" where
  "searchByPinyin db pinyin_q max_results =
     (let exact_match = pinyin_q;
          prefix_match = pinyin_q @ ''%'';
          rows = filter (\<lambda>r. like_match (c_str exact_match) (row_pinyin r) \<or>
                              like_match (c_str prefix_match) (row_pinyin r)) db
      in map (row_candidate pinyin_q) (sql_limit max_results (order_rows rows)))"

definition searchByPinyinSequence :: "Database \<Rightarrow> string list \<Rightarrow> int \<Rightarrow> CandidateList" where
  "searchByPinyinSequence db pinyins max_results =
     (if pinyins = [] then [] else searchByPinyin db (join_spaces pinyins) max_results)"


text \<open>
  \<open>INSERT OR REPLACE\<close>: a row with the same (word, pinyin) is deleted, and the new row is
  inserted with the next rowid.
\<close>

definition addUserWord :: "Database \<Rightarrow> string \<Rightarrow> string \<Rightarrow> int \<Rightarrow> bool \<times> Database" where
  "addUserWord db w p freq =
     (let w' = c_str w; p' = c_str p
      in (True,
          filter (\<lambda>r. \<not> (word r = w' \<and> row_pinyin r = p')) db
          @ [\<lparr> word = w', row_pinyin = p', row_frequency = freq, is_user_word = True \<rparr>]))"

definition updateWordFrequency :: "Database \<Rightarrow> string \<Rightarrow> string \<Rightarrow> bool \<times> Database" where
  "updateWordFrequency db w p =
     (True,
      map (\<lambda>r. if word r = c_str w \<and> row_pinyin r = c_str p
                then r\<lparr>row_frequency := row_frequency r + 1\<rparr> else r) db)"

definition learnUserInput :: "Database \<Rightarrow> string \<Rightarrow> string list \<Rightarrow> bool \<times> Database" where
  "learnUserInput db txt pinyin_sequence =
     (if txt = [] \<or> pinyin_sequence = [] then (False, db)
      else addUserWord db txt (join_spaces pinyin_sequence) 1)"


section \<open>Prediction engine (src/core/prediction_engine.cpp)\<close>

text \<open>
  The language model behind \<open>LlamaPredictor\<close> is a black box: \<open>sample_text\<close> and
  \<open>word_probability\<close> stand for whatever it generates. As in
  src/core/llama_predictor.cpp, nothing is generated while no model is loaded, and no call
  throws (the predictor catches its own exceptions), so the \<open>try\<close> blocks of the
  prediction engine always run to their end.
\<close>

record LlamaPredictor =
  model_loaded :: bool
  sample_text :: "string \<Rightarrow> int \<Rightarrow> string"
  word_probability :: "string \<Rightarrow> string \<Rightarrow> rat"

definition isModelLoaded :: "LlamaPredictor \<Rightarrow> bool" where
  "isModelLoaded lp = model_loaded lp"

definition generateText :: "LlamaPredictor \<Rightarrow> string \<Rightarrow> int \<Rightarrow> string" where
  "generateText lp prompt max_tokens =
     (if \<not> model_loaded lp then [] else sample_text lp prompt max_tokens)"

definition getNextWordProbability :: "LlamaPredictor \<Rightarrow> string \<Rightarrow> string \<Rightarrow> rat" where
  "getNextWordProbability lp context w =
     (if \<not> model_loaded lp then 0 else word_probability lp context w)"

record PredictionEngine =
  model_path :: string
  llama_predictor :: "LlamaPredictor option"
  pe_prediction_threshold :: rat
  initialized :: bool
  user_patterns :: "string \<rightharpoonup> string list"

definition isAvailable :: "PredictionEngine \<Rightarrow> bool" where
  "isAvailable pe =
     (initialized pe \<and>
      (case llama_predictor pe of None \<Rightarrow> False | Some lp \<Rightarrow> isModelLoaded lp))"

text \<open>
  \<open>std::isspace\<close>, \<open>std::ispunct\<close> and \<open>std::isdigit\<close> in the C locale; no byte above
  0x7F is in any of the three classes.
\<close>

definition isspace :: "char \<Rightarrow> bool" where
  "isspace c = (c = CHR 0x20 \<or> (CHR 0x09 \<le> c \<and> c \<le> CHR 0x0D))"

definition ispunct :: "char \<Rightarrow> bool" where
  "ispunct c =
     ((CHR 0x21 \<le> c \<and> c \<le> CHR 0x2F) \<or> (CHR 0x3A \<le> c \<and> c \<le> CHR 0x40) \<or>
      (CHR 0x5B \<le> c \<and> c \<le> CHR 0x60) \<or> (CHR 0x7B \<le> c \<and> c \<le> CHR 0x7E))"

definition isdigit :: "char \<Rightarrow> bool" where
  "isdigit c = (CHR ''0'' \<le> c \<and> c \<le> CHR ''9'')"

fun split_words :: "string \<Rightarrow> string \<Rightarrow> string list \<Rightarrow> string list" where
  "split_words [] current_word words =
     (if current_word \<noteq> [] then words @ [current_word] else words)"
| "split_words (c # cs) current_word words =
     (if isspace c \<or> ispunct c
      then (if current_word \<noteq> [] then split_words cs [] (words @ [current_word])
            else split_words cs current_word words)
      else split_words cs (current_word @ [c]) words)"

definition parseGeneratedText :: "string \<Rightarrow> string \<Rightarrow> string list" where
  "parseGeneratedText generated_text context =
     filter (\<lambda>w. \<not> (str_find context w \<noteq> None)) (split_words generated_text [] [])"

text \<open>The words that \<open>iss >> word\<close> reads: maximal runs without white space.\<close>

fun stream_words :: "string \<Rightarrow> string \<Rightarrow> string list \<Rightarrow> string list" where
  "stream_words [] current_word words =
     (if current_word \<noteq> [] then words @ [current_word] else words)"
| "stream_words (c # cs) current_word words =
     (if isspace c
      then (if current_word \<noteq> [] then stream_words cs [] (words @ [current_word])
            else stream_words cs current_word words)
      else stream_words cs (current_word @ [c]) words)"

definition parseCompletions :: "string \<Rightarrow> string \<Rightarrow> string list" where
  "parseCompletions generated_text partial_text =
     (let completions =
            filter (\<lambda>w. str_find w partial_text = Some 0 \<and> length w > length partial_text)
                   (stream_words generated_text [] [])
      in remdups_adj (sort completions))"

text \<open>
  \<open>parsePinyinPredictions\<close>: the index \<open>i\<close> is the number of bytes already dropped, so
  \<open>i + 2 < generated_text.length()\<close> says that more than two bytes remain.
\<close>

fun parsePinyinPredictions_loop :: "string \<Rightarrow> string \<Rightarrow> string list \<Rightarrow> string list" where
  "parsePinyinPredictions_loop [] current_word predictions =
     (if current_word \<noteq> [] then predictions @ [current_word] else predictions)"
| "parsePinyinPredictions_loop (c # cs) current_word predictions =
     (if (128::nat) \<le> of_char c \<and> 2 < length (c # cs)
      then parsePinyinPredictions_loop (drop 3 (c # cs)) (current_word @ take 3 (c # cs)) predictions
      else parsePinyinPredictions_loop cs []
             (if current_word \<noteq> [] then predictions @ [current_word] else predictions))"

definition parsePinyinPredictions :: "string \<Rightarrow> string \<Rightarrow> string list" where
  "parsePinyinPredictions generated_text pinyin_sequence =
     parsePinyinPredictions_loop generated_text [] []"

definition calculateCompletionScore :: "string \<Rightarrow> string \<Rightarrow> rat" where
  "calculateCompletionScore partial_text completion =
     (if length completion \<le> length partial_text then 0
      else
        let length_score = 1 / (of_nat (length completion - length partial_text) + 1);
            base_score = 7 / 10
        in base_score + length_score * (3 / 10))"

definition calculatePinyinScore :: "PredictionEngine \<Rightarrow> string \<Rightarrow> string \<Rightarrow> string \<Rightarrow> rat" where
  "calculatePinyinScore pe w pinyin_sequence context =
     (let base_score0 = 6 / 10;
          base_score1 =
            (case user_patterns pe pinyin_sequence of
               None \<Rightarrow> base_score0
             | Some patterns \<Rightarrow>
                 if list_ex (\<lambda>pattern. pattern = w) patterns then base_score0 + 3 / 10
                 else base_score0);
          base_score2 =
            (if context \<noteq> [] \<and> str_find context w = None then base_score1 + 1 / 10
             else base_score1)
      in min 1 base_score2)"

definition generatePinyin :: "string \<Rightarrow> string" where
  "generatePinyin w = ''pinyin''"

fun predictNextWords_loop ::
    "PredictionEngine \<Rightarrow> LlamaPredictor \<Rightarrow> string \<Rightarrow> int \<Rightarrow> string list \<Rightarrow> CandidateList \<Rightarrow> CandidateList"
where
  "predictNextWords_loop pe lp context max_predictions [] predictions = predictions"
| "predictNextWords_loop pe lp context max_predictions (w # ws) predictions =
     (if length predictions \<ge> size_t_of_int max_predictions then predictions
      else
        let probability = getNextWordProbability lp context w
        in predictNextWords_loop pe lp context max_predictions ws
             (if probability \<ge> pe_prediction_threshold pe
              then predictions @ [\<lparr> text = w, pinyin = generatePinyin w, score = probability,
                                     frequency = 0, is_prediction = True \<rparr>]
              else predictions))"

definition predictNextWords ::
    "(CandidateList \<Rightarrow> CandidateList) \<Rightarrow> PredictionEngine \<Rightarrow> string \<Rightarrow> int \<Rightarrow> CandidateList"
where
  "predictNextWords srt pe context max_predictions =
     (if \<not> isAvailable pe then []
      else case llama_predictor pe of
        None \<Rightarrow> []
      | Some lp \<Rightarrow>
          let generated_text = generateText lp context (max_predictions * 10)
          in if generated_text = [] then []
             else
               let words = parseGeneratedText generated_text context
               in srt (predictNextWords_loop pe lp context max_predictions words []))"

fun completePartialInput_loop ::
    "PredictionEngine \<Rightarrow> string \<Rightarrow> int \<Rightarrow> string list \<Rightarrow> CandidateList \<Rightarrow> CandidateList"
where
  "completePartialInput_loop pe partial_text max_completions [] completions = completions"
| "completePartialInput_loop pe partial_text max_completions (completion # rest) completions =
     (if length completions \<ge> size_t_of_int max_completions then completions
      else
        let sc = calculateCompletionScore partial_text completion
        in completePartialInput_loop pe partial_text max_completions rest
             (if sc \<ge> pe_prediction_threshold pe
              then completions @ [\<lparr> text = completion, pinyin = generatePinyin completion,
                                     score = sc, frequency = 0, is_prediction = True \<rparr>]
              else completions))"

definition completion_prompt_prefix :: string where
  "completion_prompt_prefix = [CHR 0xE8, CHR 0xAF, CHR 0xB7, CHR 0xE8, CHR 0xA1, CHR 0xA5, CHR 0xE5, CHR 0x85, CHR 0xA8, CHR 0xE4, CHR 0xBB, CHR 0xA5, CHR 0xE4, CHR 0xB8, CHR 0x8B, CHR 0xE6, CHR 0x96, CHR 0x87, CHR 0xE6, CHR 0x9C, CHR 0xAC, CHR 0xEF, CHR 0xBC, CHR 0x9A]"

definition completePartialInput :: "PredictionEngine \<Rightarrow> string \<Rightarrow> int \<Rightarrow> CandidateList" where
  "completePartialInput pe partial_text max_completions =
     (if \<not> isAvailable pe \<or> partial_text = [] then []
      else case llama_predictor pe of
        None \<Rightarrow> []
      | Some lp \<Rightarrow>
          let prompt = completion_prompt_prefix @ partial_text;
              generated_text = generateText lp prompt (max_completions * 20)
          in if generated_text = [] then []
             else
               let completions_text = parseCompletions generated_text partial_text
               in completePartialInput_loop pe partial_text max_completions completions_text [])"

fun predictFromPinyin_loop ::
    "PredictionEngine \<Rightarrow> string \<Rightarrow> string \<Rightarrow> int \<Rightarrow> string list \<Rightarrow> CandidateList \<Rightarrow> CandidateList"
where
  "predictFromPinyin_loop pe pinyin_sequence context max_predictions [] predictions = predictions"
| "predictFromPinyin_loop pe pinyin_sequence context max_predictions (w # ws) predictions =
     (if length predictions \<ge> size_t_of_int max_predictions then predictions
      else
        let sc = calculatePinyinScore pe w pinyin_sequence context
        in predictFromPinyin_loop pe pinyin_sequence context max_predictions ws
             (if sc \<ge> pe_prediction_threshold pe
              then predictions @ [\<lparr> text = w, pinyin = pinyin_sequence, score = sc,
                                     frequency = 0, is_prediction = True \<rparr>]
              else predictions))"

text \<open>The three UTF-8 pieces of the prompt around the pinyin and the context.\<close>

definition pinyin_prompt_1 :: string where
  "pinyin_prompt_1 = [CHR 0xE6, CHR 0xA0, CHR 0xB9, CHR 0xE6, CHR 0x8D, CHR 0xAE, CHR 0xE6, CHR 0x8B, CHR 0xBC, CHR 0xE9, CHR 0x9F, CHR 0xB3, CHR 0x27]"

definition pinyin_prompt_2 :: string where
  "pinyin_prompt_2 = [CHR 0x27, CHR 0xE5, CHR 0x92, CHR 0x8C, CHR 0xE4, CHR 0xB8, CHR 0x8A, CHR 0xE4, CHR 0xB8, CHR 0x8B, CHR 0xE6, CHR 0x96, CHR 0x87, CHR 0x27]"

definition pinyin_prompt_3 :: string where
  "pinyin_prompt_3 = [CHR 0x27, CHR 0xEF, CHR 0xBC, CHR 0x8C, CHR 0xE9, CHR 0xA2, CHR 0x84, CHR 0xE6, CHR 0xB5, CHR 0x8B, CHR 0xE5, CHR 0x8F, CHR 0xAF, CHR 0xE8, CHR 0x83, CHR 0xBD, CHR 0xE7, CHR 0x9A, CHR 0x84, CHR 0xE4, CHR 0xB8, CHR 0xAD, CHR 0xE6, CHR 0x96, CHR 0x87, CHR 0xE8, CHR 0xAF, CHR 0x8D, CHR 0xE6, CHR 0xB1, CHR 0x87, CHR 0xEF, CHR 0xBC, CHR 0x9A]"

definition predictFromPinyin ::
    "PredictionEngine \<Rightarrow> string \<Rightarrow> string \<Rightarrow> int \<Rightarrow> CandidateList"
where
  "predictFromPinyin pe pinyin_sequence context max_predictions =
     (if \<not> isAvailable pe then []
      else case llama_predictor pe of
        None \<Rightarrow> []
      | Some lp \<Rightarrow>
          let prompt = pinyin_prompt_1 @ pinyin_sequence @ pinyin_prompt_2 @ context @ pinyin_prompt_3;
              generated_text = generateText lp prompt (max_predictions * 15)
          in if generated_text = [] then []
             else
               let predicted_words = parsePinyinPredictions generated_text pinyin_sequence
               in predictFromPinyin_loop pe pinyin_sequence context max_predictions predicted_words [])"


section \<open>Engine (src/core/engine.cpp)\<close>

text \<open>
  The three callbacks are modelled by a flag each (is one registered?) and by the list of
  the notifications delivered so far, in order.
\<close>

datatype Notification =
    CandidatesChanged CandidateList
  | TextCommitted string
  | StateChanged InputState

record Engine =
  config :: EngineConfig
  state :: InputState
  composition :: string
  candidates :: CandidateList
  pinyin_converter :: PinyinConverter
  dictionary_manager :: Database
  prediction_engine :: "PredictionEngine option"
  candidate_callback :: bool
  commit_callback :: bool
  state_change_callback :: bool
  notifications :: "Notification list"

definition notify :: "Notification \<Rightarrow> Engine \<Rightarrow> Engine" where
  "notify n e = e\<lparr>notifications := notifications e @ [n]\<rparr>"

definition setState :: "InputState \<Rightarrow> Engine \<Rightarrow> Engine" where
  "setState new_state e =
     (if state e \<noteq> new_state
      then (let e1 = e\<lparr>state := new_state\<rparr>
            in if state_change_callback e1 then notify (StateChanged (state e1)) e1 else e1)
      else e)"

definition clearComposition :: "Engine \<Rightarrow> Engine" where
  "clearComposition e =
     (let e1 = e\<lparr>composition := []\<rparr>;
          e2 = e1\<lparr>candidates := []\<rparr>;
          e3 = e2\<lparr>pinyin_converter := clear (pinyin_converter e2)\<rparr>;
          e4 = setState IDLE e3
      in if candidate_callback e4 then notify (CandidatesChanged (candidates e4)) e4 else e4)"

text \<open>The loop that appends the predicted candidates that are neither duplicates nor below the threshold.\<close>

fun merge_predictions :: "rat \<Rightarrow> CandidateList \<Rightarrow> CandidateList \<Rightarrow> CandidateList" where
  "merge_predictions threshold [] cands = cands"
| "merge_predictions threshold (pred_candidate # rest) cands =
     (let duplicate = list_ex (\<lambda>existing. text existing = text pred_candidate) cands
      in merge_predictions threshold rest
           (if \<not> duplicate \<and> score pred_candidate \<ge> threshold
            then cands @ [pred_candidate] else cands))"

definition updateCandidates :: "(CandidateList \<Rightarrow> CandidateList) \<Rightarrow> Engine \<Rightarrow> Engine" where
  "updateCandidates srt e =
     (let e1 = e\<lparr>composition := getCurrentPinyin (pinyin_converter e)\<rparr>;
          e2 = e1\<lparr>candidates := []\<rparr>
      in if composition e2 = []
         then (let e3 = setState IDLE e2
               in if candidate_callback e3 then notify (CandidatesChanged (candidates e3)) e3 else e3)
         else
           let dict_candidates =
                 searchByPinyin (dictionary_manager e2) (composition e2) (max_candidates (config e2));
               cands1 = candidates e2 @ dict_candidates;
               cands2 =
                 (case prediction_engine e2 of
                    None \<Rightarrow> cands1
                  | Some pe \<Rightarrow>
                      if isAvailable pe
                      then
                        let predicted_candidates =
                              predictFromPinyin pe (composition e2) []
                                (max 1 (max_candidates (config e2) - int (length cands1)))
                        in merge_predictions (prediction_threshold (config e2)) predicted_candidates cands1
                      else cands1);
               cands3 = srt cands2;
               cands4 = (if length cands3 > size_t_of_int (max_candidates (config e2))
                         then take (size_t_of_int (max_candidates (config e2))) cands3
                         else cands3);
               e3 = setState SELECTING (e2\<lparr>candidates := cands4\<rparr>)
           in if candidate_callback e3 then notify (CandidatesChanged (candidates e3)) e3 else e3)"

definition selectCandidate :: "int \<Rightarrow> Engine \<Rightarrow> bool \<times> Engine" where
  "selectCandidate index e =
     (if index < 0 \<or> index \<ge> int (length (candidates e)) then (False, e)
      else
        let candidate = candidates e ! nat index;
            e1 = (if enable_learning (config e)
                  then e\<lparr>dictionary_manager :=
                           snd (updateWordFrequency (dictionary_manager e) (text candidate) (pinyin candidate))\<rparr>
                  else e);
            e2 = (if commit_callback e1 then notify (TextCommitted (text candidate)) e1 else e1)
        in (True, clearComposition e2))"

definition commitComposition :: "Engine \<Rightarrow> string \<times> Engine" where
  "commitComposition e =
     (let result = composition e;
          e1 = (if commit_callback e \<and> result \<noteq> [] then notify (TextCommitted result) e else e)
      in (result, clearComposition e1))"

text \<open>
  \<open>static_cast<char>(event.key_code)\<close> keeps the low byte. \<open>std::tolower\<close> is only applied to
  ASCII letters here.
\<close>

definition char_of_key_code :: "int \<Rightarrow> char" where
  "char_of_key_code k = char_of (k mod 256)"

definition tolower :: "char \<Rightarrow> char" where
  "tolower c =
     (if CHR ''A'' \<le> c \<and> c \<le> CHR ''Z'' then char_of (of_char c + (32::nat)) else c)"

definition handleKeyPress :: "(CandidateList \<Rightarrow> CandidateList) \<Rightarrow> InputEvent \<Rightarrow> Engine \<Rightarrow> bool \<times> Engine" where
  "handleKeyPress srt event e =
     (let ch = char_of_key_code (key_code event)
      in if key_code event = 8
         then (if composition e \<noteq> []
               then (True, updateCandidates srt
                             (e\<lparr>pinyin_converter := snd (removeLastChar (pinyin_converter e))\<rparr>))
               else (False, e))
         else if key_code event = 27 then (True, clearComposition e)
         else if key_code event = 13
         then (if composition e \<noteq> [] then (True, snd (commitComposition e)) else (False, e))
         else if CHR ''1'' \<le> ch \<and> ch \<le> CHR ''9'' \<and>
                 int (of_char ch) - int (of_char (CHR ''1'')) < int (length (candidates e))
         then (True, snd (selectCandidate (int (of_char ch) - int (of_char (CHR ''1''))) e))
         else if (CHR ''a'' \<le> ch \<and> ch \<le> CHR ''z'') \<or> (CHR ''A'' \<le> ch \<and> ch \<le> CHR ''Z'')
         then (case addChar (tolower ch) (pinyin_converter e) of
                 (True, c') \<Rightarrow>
                   (True, setState COMPOSING (updateCandidates srt (e\<lparr>pinyin_converter := c'\<rparr>)))
               | (False, c') \<Rightarrow> (False, e\<lparr>pinyin_converter := c'\<rparr>))
         else (False, e))"

text \<open>
  \<open>std::stoi\<close>: leading white space, an optional sign, then decimal digits; what follows
  the digits is ignored. \<open>None\<close> is the exception it throws when there is no digit or the
  value does not fit an \<open>int\<close>.
\<close>

definition digit_value :: "char \<Rightarrow> int" where
  "digit_value c = int (of_char c) - int (of_char (CHR ''0''))"

definition decimal_value :: "string \<Rightarrow> int" where
  "decimal_value ds = foldl (\<lambda>acc d. acc * 10 + digit_value d) 0 ds"

definition stoi :: "string \<Rightarrow> int option" where
  "stoi s =
     (let s1 = dropWhile isspace s;
          negative = (s1 \<noteq> [] \<and> hd s1 = CHR ''-'');
          s2 = (if s1 \<noteq> [] \<and> (hd s1 = CHR ''-'' \<or> hd s1 = CHR ''+'') then tl s1 else s1);
          digits = takeWhile isdigit s2;
          v = (if negative then - decimal_value digits else decimal_value digits)
      in if digits = [] then None
         else if v < - (2 ^ 31) \<or> v > 2 ^ 31 - 1 then None
         else Some v)"

definition handleCandidateSelect :: "InputEvent \<Rightarrow> Engine \<Rightarrow> bool \<times> Engine" where
  "handleCandidateSelect event e =
     (case stoi (data event) of
        None \<Rightarrow> (False, e)
      | Some index \<Rightarrow> selectCandidate index e)"

definition handleCommitText :: "InputEvent \<Rightarrow> Engine \<Rightarrow> bool \<times> Engine" where
  "handleCommitText event e =
     (let e1 = (if commit_callback e then notify (TextCommitted (data event)) e else e)
      in (True, clearComposition e1))"

definition processInput :: "(CandidateList \<Rightarrow> CandidateList) \<Rightarrow> InputEvent \<Rightarrow> Engine \<Rightarrow> bool \<times> Engine" where
  "processInput srt event e =
     (case event_type event of
        KEY_PRESS \<Rightarrow> handleKeyPress srt event e
      | CANDIDATE_SELECT \<Rightarrow> handleCandidateSelect event e
      | COMMIT_TEXT \<Rightarrow> handleCommitText event e
      | CLEAR_COMPOSITION \<Rightarrow> (True, clearComposition e)
      | KEY_RELEASE \<Rightarrow> (False, e))"

text \<open>Pressing a sequence of keys: the results of \<open>processInput\<close>, and the engine after the last.\<close>

definition key_press :: "char \<Rightarrow> InputEvent" where
  "key_press ch = \<lparr> event_type = KEY_PRESS, data = [], key_code = int (of_char ch) \<rparr>"

fun press_keys :: "(CandidateList \<Rightarrow> CandidateList) \<Rightarrow> string \<Rightarrow> Engine \<Rightarrow> bool list \<times> Engine" where
  "press_keys srt [] e = ([], e)"
| "press_keys srt (k # ks) e =
     (case processInput srt (key_press k) e of
        (ok, e') \<Rightarrow> (case press_keys srt ks e' of (oks, e'') \<Rightarrow> (ok # oks, e'')))"


section \<open>States the properties are stated about\<close>

text \<open>
  A converter after its constructor and \<open>initialize()\<close>, holding the buffer \<open>B\<close>. No
  operation changes any field but the buffer, so every converter in use has this form.
\<close>

definition ready_converter :: "string \<Rightarrow> PinyinConverter" where
  "ready_converter B = (snd (initialize_converter PinyinConverter_new))\<lparr>current_pinyin := B\<rparr>"

section \<open>The scoring formula as the specification words it\<close>



section \<open>Concrete stores, predictors and engines\<close>

text \<open>
  The word "ni hao" in UTF-8 (two characters, six bytes), and the store of a first run:
  an empty database after \<open>loadSystemDictionary\<close>. It is seeded with
  (\<open>word_nihao\<close>, "ni hao", 100) and nine other words.
\<close>

definition word_nihao :: string where
  "word_nihao = [CHR 0xE4, CHR 0xBD, CHR 0xA0, CHR 0xE5, CHR 0xA5, CHR 0xBD]"

definition seeded_store :: Database where
  "seeded_store = snd (loadSystemDictionary [])"

text \<open>A language model that is loaded and always generates the same text.\<close>

definition fixed_llm :: "string \<Rightarrow> LlamaPredictor" where
  "fixed_llm generated =
     \<lparr> model_loaded = True, sample_text = (\<lambda>prompt max_tokens. generated),
       word_probability = (\<lambda>context w. 1) \<rparr>"

text \<open>
  A prediction engine as its constructor leaves it (threshold 0.5, not initialized, no
  model loaded), and one that is initialized on a loaded model.
\<close>

definition idle_prediction_engine :: PredictionEngine where
  "idle_prediction_engine =
     \<lparr> model_path = [],
       llama_predictor = Some ((fixed_llm [])\<lparr>model_loaded := False\<rparr>),
       pe_prediction_threshold = 1 / 2, initialized = False, user_patterns = Map.empty \<rparr>"

definition loaded_prediction_engine :: "string \<Rightarrow> PredictionEngine" where
  "loaded_prediction_engine generated =
     \<lparr> model_path = ''models/qwen0.6b.gguf'',
       llama_predictor = Some (fixed_llm generated),
       pe_prediction_threshold = 1 / 2, initialized = True, user_patterns = Map.empty \<rparr>"

text \<open>The default configuration of include/core/types.h.\<close>

definition default_config :: EngineConfig where
  "default_config =
     \<lparr> max_candidates = 9, enable_prediction = True, enable_learning = True,
       prediction_threshold = 1 / 2 \<rparr>"

text \<open>
  An engine after construction and a successful \<open>initialize()\<close>: state \<open>IDLE\<close>, nothing
  composed, an initialized converter, the given store and predictor (no predictor when
  prediction is disabled), all three callbacks registered.
\<close>

definition new_engine :: "EngineConfig \<Rightarrow> Database \<Rightarrow> PredictionEngine option \<Rightarrow> Engine" where
  "new_engine cfg db pe =
     \<lparr> config = cfg, state = IDLE, composition = [], candidates = [],
       pinyin_converter = ready_converter [],
       dictionary_manager = db,
       prediction_engine = (if enable_prediction cfg then pe else None),
       candidate_callback = True, commit_callback = True, state_change_callback = True,
       notifications = [] \<rparr>"

section \<open>Notions used to state the properties of the engine\<close>

text \<open>
  What \<open>updateCandidates\<close> leaves in \<open>candidates_\<close> for a non-empty composition, as a
  function of the configuration, the store, the predictor and the composition.
\<close>

definition merged_candidates ::
    "(CandidateList \<Rightarrow> CandidateList) \<Rightarrow> EngineConfig \<Rightarrow> Database \<Rightarrow> PredictionEngine option
       \<Rightarrow> string \<Rightarrow> CandidateList"
where
  "merged_candidates srt cfg db pe buffer =
     (let dict_candidates = searchByPinyin db buffer (max_candidates cfg);
          merged =
            (case pe of
               None \<Rightarrow> dict_candidates
             | Some p \<Rightarrow>
                 if isAvailable p
                 then merge_predictions (prediction_threshold cfg)
                        (predictFromPinyin p buffer []
                           (max 1 (max_candidates cfg - int (length dict_candidates))))
                        dict_candidates
                 else dict_candidates);
          sorted_cands = srt merged
      in if length sorted_cands > size_t_of_int (max_candidates cfg)
         then take (size_t_of_int (max_candidates cfg)) sorted_cands
         else sorted_cands)"

text \<open>
  An engine in use: configuration, store and predictor as given, an initialized converter
  whose buffer is the composition \<open>B\<close>, in state \<open>st\<close> with the candidates \<open>cs\<close>.
\<close>

definition engine_at ::
    "EngineConfig \<Rightarrow> Database \<Rightarrow> PredictionEngine option \<Rightarrow> string \<Rightarrow> InputState
       \<Rightarrow> CandidateList \<Rightarrow> Engine \<Rightarrow> bool"
where
  "engine_at cfg db pe B st cs e \<longleftrightarrow>
     config e = cfg \<and> dictionary_manager e = db \<and> prediction_engine e = pe \<and>
     pinyin_converter e = ready_converter B \<and> composition e = B \<and>
     state e = st \<and> candidates e = cs"



definition backspace_key :: InputEvent where
  "backspace_key = \<lparr> event_type = KEY_PRESS, data = [], key_code = 8 \<rparr>"


text \<open>Lower-case ASCII letters, and the events that \<open>handleKeyPress\<close> treats as letter keys.\<close>

definition lower_letter :: "char \<Rightarrow> bool" where
  "lower_letter ch \<longleftrightarrow> CHR ''a'' \<le> ch \<and> ch \<le> CHR ''z''"

definition is_letter_key :: "InputEvent \<Rightarrow> bool" where
  "is_letter_key ev =
     (let ch = char_of_key_code (key_code ev)
      in (CHR ''a'' \<le> ch \<and> ch \<le> CHR ''z'') \<or> (CHR ''A'' \<le> ch \<and> ch \<le> CHR ''Z''))"

text \<open>The candidate that the seeded store yields for a query that its pinyin starts with.\<close>

definition nihao_candidate :: Candidate where
  "nihao_candidate =
     \<lparr> text = word_nihao, pinyin = ''ni hao'', score = 44, frequency = 100,
       is_prediction = False \<rparr>"

text \<open>
  Two UTF-8 words of one character (three bytes) each, both read "de". The seeded store
  after the user added the first word with two readings, and after the user added both
  words with the same reading and frequency.
\<close>

definition word_de :: string where
  "word_de = [CHR 0xE5, CHR 0xBE, CHR 0x97]"


definition two_readings_store :: Database where
  "two_readings_store =
     snd (addUserWord (snd (addUserWord seeded_store word_de ''de'' 100)) word_de ''dei'' 100)"


section \<open>Properties of the pinyin converter\<close>

lemma table_shape:
  "list_all (\<lambda>p. length p \<le> 6 \<and> list_all (\<lambda>c. c \<in> set ''abcdefghijklmnopqrstuvwxyz'') p)
            STANDARD_PINYINS"
  by code_simp

lemma table_length: "p \<in> set STANDARD_PINYINS \<Longrightarrow> length p \<le> 6"
  using table_shape by (auto simp: list_all_iff)

lemma table_letters:
  "p \<in> set STANDARD_PINYINS \<Longrightarrow> c \<in> set p \<Longrightarrow> c \<in> set ''abcdefghijklmnopqrstuvwxyz''"
  using table_shape unfolding list_all_iff by blast

lemma fold_upd_dom:
  "(fold (\<lambda>k m. m(k \<mapsto> True)) ks m) x \<noteq> None \<longleftrightarrow> x \<in> set ks \<or> m x \<noteq> None"
  by (induction ks arbitrary: m) auto

lemma ready_converter_eq:
  "ready_converter B =
     \<lparr> current_pinyin = B,
       valid_pinyins = STANDARD_PINYINS,
       pinyin_map = fold (\<lambda>p m. m(p \<mapsto> True)) STANDARD_PINYINS Map.empty,
       valid_chars = fold (\<lambda>c m. m(c \<mapsto> True)) ''abcdefghijklmnopqrstuvwxyz'' Map.empty \<rparr>"
  unfolding ready_converter_def initialize_converter_def loadPinyinData_def
    PinyinConverter_new_def Let_def
  by (simp only: prod.case snd_conv if_False not_True_eq_False PinyinConverter.simps)

lemma ready_fields:
  "current_pinyin (ready_converter B) = B"
  "valid_pinyins (ready_converter B) = STANDARD_PINYINS"
  "valid_chars (ready_converter B) ch \<noteq> None \<longleftrightarrow> ch \<in> set ''abcdefghijklmnopqrstuvwxyz''"
  "pinyin_map (ready_converter B) s \<noteq> None \<longleftrightarrow> s \<in> set STANDARD_PINYINS"
  "(ready_converter B)\<lparr>current_pinyin := B'\<rparr> = ready_converter B'"
  unfolding ready_converter_eq
  by (simp_all only: fold_upd_dom PinyinConverter.simps empty_iff simp_thms)

lemma prefix_take_iff: "(length t \<le> length p \<and> take (length t) p = t) \<longleftrightarrow> prefix t p"
  by (metis prefix_def append_eq_conv_conj append_take_drop_id prefix_length_le)

lemma addChar_ready:
  "addChar ch (ready_converter B) =
     (if list_ex (prefix (B @ [ch])) STANDARD_PINYINS
      then (True, ready_converter (B @ [ch]))
      else (False, ready_converter B))"
proof (cases "ch \<in> set ''abcdefghijklmnopqrstuvwxyz''")
  case True
  then have "valid_chars (ready_converter B) ch \<noteq> None" by (simp only: ready_fields)
  then show ?thesis
    by (auto simp: addChar_def Let_def ready_fields list_ex_iff prefix_take_iff)
next
  case False
  then have v: "valid_chars (ready_converter B) ch = None"
    using ready_fields(3)[of B ch] by blast
  have "\<not> list_ex (prefix (B @ [ch])) STANDARD_PINYINS"
  proof
    assume "list_ex (prefix (B @ [ch])) STANDARD_PINYINS"
    then obtain p where p: "p \<in> set STANDARD_PINYINS" "prefix (B @ [ch]) p"
      by (auto simp: list_ex_iff)
    then have "ch \<in> set p" by (auto simp: prefix_def)
    with p(1) False show False using table_letters by blast
  qed
  with v show ?thesis by (simp add: addChar_def)
qed

lemma removeLastChar_ready:
  "removeLastChar (ready_converter B) =
     (if B = [] then (False, ready_converter B) else (True, ready_converter (butlast B)))"
  by (simp add: removeLastChar_def ready_fields)

lemma clear_ready: "clear (ready_converter B) = ready_converter []"
  by (simp add: clear_def ready_fields)

lemma isValidPinyin_ready: "isValidPinyin (ready_converter B) s \<longleftrightarrow> s \<in> set STANDARD_PINYINS"
  unfolding isValidPinyin_def by (rule ready_fields(4))

text \<open>
  C2. For every buffer \<open>B\<close> and every character \<open>ch\<close>, \<open>addChar ch\<close> succeeds if and only if
  some entry of the syllable table has \<open>B + ch\<close> as a prefix; on success the buffer becomes
  \<open>B + ch\<close>, on failure the converter is unchanged.
\<close>

theorem addChar_prefix_gate:
  "addChar ch (ready_converter B) =
     (if \<exists>p \<in> set STANDARD_PINYINS. prefix (B @ [ch]) p
      then (True, ready_converter (B @ [ch]))
      else (False, ready_converter B))"
  by (simp only: addChar_ready list_ex_iff)

theorem addChar_prefix_gate_witness:
  "(\<exists>p \<in> set STANDARD_PINYINS. prefix (''n'' @ [CHR ''i'']) p) \<and>
   addChar (CHR ''i'') (ready_converter ''n'') = (True, ready_converter ''ni'') \<and>
   \<not> (\<exists>p \<in> set STANDARD_PINYINS. prefix (''ni'' @ [CHR ''h'']) p) \<and>
   addChar (CHR ''h'') (ready_converter ''ni'') = (False, ready_converter ''ni'')"
proof -
  have yes: "list_ex (prefix (''n'' @ [CHR ''i''])) STANDARD_PINYINS" by code_simp
  have no: "\<not> list_ex (prefix (''ni'' @ [CHR ''h''])) STANDARD_PINYINS" by code_simp
  show ?thesis
    using yes no addChar_prefix_gate [of "CHR ''i''" "''n''"]
      addChar_prefix_gate [of "CHR ''h''" "''ni''"]
    by (simp add: list_ex_iff)
qed

lemma segment_sound:
  "(\<forall>r \<in> set (segmentPinyinRecursive c p start cur rs).
      r \<in> set rs \<or>
      (\<exists>segs. r = cur @ segs \<and> r \<noteq> [] \<and> (\<forall>s \<in> set segs. isValidPinyin c s) \<and>
              concat segs = drop start p))"
  "(\<forall>r \<in> set (segment_loop c p start len cur rs).
      r \<in> set rs \<or>
      (\<exists>segs. r = cur @ segs \<and> r \<noteq> [] \<and> (\<forall>s \<in> set segs. isValidPinyin c s) \<and>
              concat segs = drop start p))"
proof (induction c p start cur rs and c p start len cur rs
       rule: segmentPinyinRecursive_segment_loop.induct)
  case (1 c pinyin start current results)
  show ?case
  proof (cases "start \<ge> length pinyin")
    case True
    then show ?thesis by (subst segmentPinyinRecursive.simps) auto
  next
    case False
    then show ?thesis using 1 by (subst segmentPinyinRecursive.simps) simp
  qed
next
  case (2 c pinyin start len current results)
  let ?seg = "take len (drop start pinyin)"
  let ?res' = "if isValidPinyin c ?seg
               then segmentPinyinRecursive c pinyin (start + len) (current @ [?seg]) results
               else results"
  show ?case
  proof (cases "0 < len \<and> len \<le> length pinyin - start")
    case False
    then show ?thesis by (subst segment_loop.simps) auto
  next
    case True
    have eq: "segment_loop c pinyin start len current results
              = segment_loop c pinyin start (len + 1) current ?res'"
      using True by (subst segment_loop.simps) (simp add: Let_def)
    have inner: "\<forall>r \<in> set ?res'. r \<in> set results \<or>
        (\<exists>segs. r = current @ segs \<and> r \<noteq> [] \<and> (\<forall>s \<in> set segs. isValidPinyin c s) \<and>
                concat segs = drop start pinyin)"
    proof (cases "isValidPinyin c ?seg")
      case False
      then show ?thesis by simp
    next
      case v: True
      have ih: "\<forall>r\<in>set (segmentPinyinRecursive c pinyin (start + len) (current @ [?seg]) results).
          r \<in> set results \<or>
          (\<exists>segs. r = (current @ [?seg]) @ segs \<and> r \<noteq> [] \<and>
                  (\<forall>s\<in>set segs. isValidPinyin c s) \<and>
                  concat segs = drop (start + len) pinyin)"
        using "2.IH"(1)[OF True refl v] .
      have cat: "?seg @ drop (start + len) pinyin = drop start pinyin"
        by (metis add.commute append_take_drop_id drop_drop)
      show ?thesis
      proof
        fix r assume "r \<in> set ?res'"
        then have "r \<in> set (segmentPinyinRecursive c pinyin (start + len) (current @ [?seg]) results)"
          using v by simp
        with ih have "r \<in> set results \<or>
          (\<exists>segs. r = (current @ [?seg]) @ segs \<and> r \<noteq> [] \<and>
                  (\<forall>s\<in>set segs. isValidPinyin c s) \<and>
                  concat segs = drop (start + len) pinyin)" by blast
        then show "r \<in> set results \<or>
          (\<exists>segs. r = current @ segs \<and> r \<noteq> [] \<and> (\<forall>s \<in> set segs. isValidPinyin c s) \<and>
                  concat segs = drop start pinyin)"
        proof
          assume "r \<in> set results" then show ?thesis by simp
        next
          assume "\<exists>segs. r = (current @ [?seg]) @ segs \<and> r \<noteq> [] \<and>
                  (\<forall>s\<in>set segs. isValidPinyin c s) \<and>
                  concat segs = drop (start + len) pinyin"
          then obtain segs where s: "r = (current @ [?seg]) @ segs" "r \<noteq> []"
             "\<forall>s\<in>set segs. isValidPinyin c s" "concat segs = drop (start + len) pinyin"
            by blast
          have "r = current @ (?seg # segs) \<and> r \<noteq> [] \<and>
                (\<forall>s \<in> set (?seg # segs). isValidPinyin c s) \<and>
                concat (?seg # segs) = drop start pinyin"
            using s v cat by simp
          then show ?thesis by blast
        qed
      qed
    qed
    have ih2: "\<forall>r\<in>set (segment_loop c pinyin start (len + 1) current ?res').
        r \<in> set ?res' \<or>
        (\<exists>segs. r = current @ segs \<and> r \<noteq> [] \<and> (\<forall>s\<in>set segs. isValidPinyin c s) \<and>
                concat segs = drop start pinyin)"
      using "2.IH"(2)[OF True refl refl] .
    show ?thesis unfolding eq using ih2 inner by blast
  qed
qed

text \<open>
  C10. Every segmentation returned by \<open>getPinyinSegments\<close> is a non-empty sequence of
  strings, each of them a member of the syllable table (accepted by \<open>isValidPinyin\<close>), whose
  concatenation is the current buffer.
\<close>

theorem getPinyinSegments_sound:
  "seg \<in> set (getPinyinSegments (ready_converter B)) \<Longrightarrow>
     seg \<noteq> [] \<and>
     (\<forall>s \<in> set seg. s \<in> set STANDARD_PINYINS \<and> isValidPinyin (ready_converter B) s) \<and>
     concat seg = current_pinyin (ready_converter B)"
proof -
  assume a: "seg \<in> set (getPinyinSegments (ready_converter B))"
  then have ne: "B \<noteq> []" by (auto simp: getPinyinSegments_def ready_fields split: if_splits)
  with a have "seg \<in> set (segmentPinyinRecursive (ready_converter B) B 0 [] [])"
    by (simp add: getPinyinSegments_def ready_fields)
  with segment_sound(1)[of "ready_converter B" B 0 "[]" "[]"]
  obtain segs where "seg = [] @ segs" "seg \<noteq> []"
      "\<forall>s \<in> set segs. isValidPinyin (ready_converter B) s" "concat segs = drop 0 B"
    by auto
  then show ?thesis by (simp add: isValidPinyin_ready ready_fields)
qed

theorem getPinyinSegments_sound_witness:
  "getPinyinSegments (ready_converter ''xian'') = [[''xi'', ''an''], [''xian'']] \<and>
   ''xi'' \<in> set STANDARD_PINYINS \<and> ''an'' \<in> set STANDARD_PINYINS \<and>
   concat [''xi'', ''an''] = current_pinyin (ready_converter ''xian'')"
proof -
  have run: "getPinyinSegments (ready_converter ''xian'') = [[''xi'', ''an''], [''xian'']]"
    by code_simp
  then have "[''xi'', ''an''] \<in> set (getPinyinSegments (ready_converter ''xian''))" by simp
  from getPinyinSegments_sound [OF this] run show ?thesis by simp
qed

lemma empty_prefix_in_table: "list_ex (prefix []) STANDARD_PINYINS"
  by code_simp

lemma converter_ops_ready:
  "\<exists>B. foldl apply_converter_op (ready_converter B0) ops = ready_converter B \<and>
       (list_ex (prefix B0) STANDARD_PINYINS \<longrightarrow> list_ex (prefix B) STANDARD_PINYINS)"
proof (induction ops arbitrary: B0)
  case Nil
  then show ?case by auto
next
  case (Cons x ops)
  have step: "\<exists>B1. apply_converter_op (ready_converter B0) x = ready_converter B1 \<and>
       (list_ex (prefix B0) STANDARD_PINYINS \<longrightarrow> list_ex (prefix B1) STANDARD_PINYINS)"
  proof (cases x)
    case (AddChar ch)
    then show ?thesis by (auto simp: addChar_ready)
  next
    case RemoveLastChar
    have "list_ex (prefix B0) STANDARD_PINYINS \<Longrightarrow> list_ex (prefix (butlast B0)) STANDARD_PINYINS"
      unfolding list_ex_iff by (meson prefix_order.trans prefixeq_butlast)
    with RemoveLastChar show ?thesis by (auto simp: removeLastChar_ready)
  next
    case Clear
    have "list_ex (prefix []) STANDARD_PINYINS" by (rule empty_prefix_in_table)
    with Clear show ?thesis by (auto simp: clear_ready)
  qed
  then obtain B1 where b1: "apply_converter_op (ready_converter B0) x = ready_converter B1"
    "list_ex (prefix B0) STANDARD_PINYINS \<longrightarrow> list_ex (prefix B1) STANDARD_PINYINS" by blast
  from Cons.IH[of B1] obtain B where
    "foldl apply_converter_op (ready_converter B1) ops = ready_converter B"
    "list_ex (prefix B1) STANDARD_PINYINS \<longrightarrow> list_ex (prefix B) STANDARD_PINYINS" by blast
  with b1 show ?case by auto
qed

text \<open>
  C9. After any sequence of \<open>addChar\<close>, \<open>removeLastChar\<close> and \<open>clear\<close> operations on an
  initialized converter, the buffer is empty or a prefix of at least one entry of the
  syllable table, and it is at most 6 characters long.
\<close>

theorem buffer_prefix_invariant:
  "(current_pinyin (foldl apply_converter_op (ready_converter []) ops) = [] \<or>
    (\<exists>p \<in> set STANDARD_PINYINS.
       prefix (current_pinyin (foldl apply_converter_op (ready_converter []) ops)) p)) \<and>
   length (current_pinyin (foldl apply_converter_op (ready_converter []) ops)) \<le> 6"
proof -
  have "list_ex (prefix []) STANDARD_PINYINS" by (rule empty_prefix_in_table)
  with converter_ops_ready[of "[]" ops] obtain B where
    b: "foldl apply_converter_op (ready_converter []) ops = ready_converter B"
      "list_ex (prefix B) STANDARD_PINYINS" by blast
  then obtain p where p: "p \<in> set STANDARD_PINYINS" "prefix B p" by (auto simp: list_ex_iff)
  then have "length B \<le> 6" using table_length[OF p(1)] prefix_length_le[OF p(2)] by simp
  with p b show ?thesis by (auto simp: ready_fields)
qed

theorem buffer_prefix_invariant_witness:
  "current_pinyin (foldl apply_converter_op (ready_converter [])
      [AddChar (CHR ''x''), Clear, AddChar (CHR ''z''), AddChar (CHR ''h''), AddChar (CHR ''u''),
       AddChar (CHR ''a''), AddChar (CHR ''n''), AddChar (CHR ''g''), AddChar (CHR ''a''),
       RemoveLastChar, AddChar (CHR ''g'')]) = ''zhuang'' \<and>
   (\<exists>p \<in> set STANDARD_PINYINS. prefix ''zhuang'' p) \<and> length ''zhuang'' \<le> 6"
proof -
  let ?ops = "[AddChar (CHR ''x''), Clear, AddChar (CHR ''z''), AddChar (CHR ''h''),
       AddChar (CHR ''u''), AddChar (CHR ''a''), AddChar (CHR ''n''), AddChar (CHR ''g''),
       AddChar (CHR ''a''), RemoveLastChar, AddChar (CHR ''g'')]"
  have run: "current_pinyin (foldl apply_converter_op (ready_converter []) ?ops) = ''zhuang''"
    by code_simp
  with buffer_prefix_invariant [of ?ops] show ?thesis by simp
qed

section \<open>Properties of the dictionary manager\<close>




lemma set_sql_limit: "set (sql_limit n xs) \<subseteq> set xs"
  by (auto simp: sql_limit_def dest: in_set_takeD)

lemma set_order_rows: "set (order_rows rows) = set rows"
  by (simp add: order_rows_def)

lemma searchByPinyin_rows:
  "c \<in> set (searchByPinyin db q m) \<Longrightarrow> \<exists>r \<in> set db. c = row_candidate q r"
  using set_sql_limit unfolding searchByPinyin_def Let_def
  by (fastforce simp: set_order_rows)





section \<open>Properties of the prediction engine\<close>

text \<open>
  C7. \<open>isAvailable()\<close> is true only if the prediction engine was initialized and the
  underlying model reports loaded; whenever it is false, \<open>predictFromPinyin\<close>,
  \<open>predictNextWords\<close> and \<open>completePartialInput\<close> all return the empty list.
\<close>

theorem unavailable_predicts_nothing:
  "(isAvailable pe \<longrightarrow>
      initialized pe \<and> (\<exists>lp. llama_predictor pe = Some lp \<and> isModelLoaded lp)) \<and>
   (\<not> isAvailable pe \<longrightarrow>
      predictFromPinyin pe pinyin_sequence context n = [] \<and>
      predictNextWords srt pe context n = [] \<and>
      completePartialInput pe partial_text n = [])"
  by (auto simp: isAvailable_def predictFromPinyin_def predictNextWords_def
        completePartialInput_def split: option.splits)

section \<open>Properties of the engine\<close>

subsection \<open>Field-wise effect of the operations\<close>

lemma setState_fields:
  "state (setState s e) = s"
  "config (setState s e) = config e"
  "composition (setState s e) = composition e"
  "candidates (setState s e) = candidates e"
  "pinyin_converter (setState s e) = pinyin_converter e"
  "dictionary_manager (setState s e) = dictionary_manager e"
  "prediction_engine (setState s e) = prediction_engine e"
  "candidate_callback (setState s e) = candidate_callback e"
  "commit_callback (setState s e) = commit_callback e"
  "state_change_callback (setState s e) = state_change_callback e"
  by (simp_all add: setState_def notify_def Let_def)

lemma notify_fields:
  "state (notify n e) = state e"
  "config (notify n e) = config e"
  "composition (notify n e) = composition e"
  "candidates (notify n e) = candidates e"
  "pinyin_converter (notify n e) = pinyin_converter e"
  "dictionary_manager (notify n e) = dictionary_manager e"
  "prediction_engine (notify n e) = prediction_engine e"
  "candidate_callback (notify n e) = candidate_callback e"
  "commit_callback (notify n e) = commit_callback e"
  "state_change_callback (notify n e) = state_change_callback e"
  "notifications (notify n e) = notifications e @ [n]"
  by (simp_all add: notify_def)

lemma updateCandidates_fields:
  "composition (updateCandidates srt e) = current_pinyin (pinyin_converter e)"
  "pinyin_converter (updateCandidates srt e) = pinyin_converter e"
  "config (updateCandidates srt e) = config e"
  "dictionary_manager (updateCandidates srt e) = dictionary_manager e"
  "prediction_engine (updateCandidates srt e) = prediction_engine e"
  "candidate_callback (updateCandidates srt e) = candidate_callback e"
  "commit_callback (updateCandidates srt e) = commit_callback e"
  "state_change_callback (updateCandidates srt e) = state_change_callback e"
  "state (updateCandidates srt e) =
     (if current_pinyin (pinyin_converter e) = [] then IDLE else SELECTING)"
  by (simp_all add: updateCandidates_def Let_def getCurrentPinyin_def setState_fields notify_fields)

lemma updateCandidates_candidates:
  "candidates (updateCandidates srt e) =
     (if current_pinyin (pinyin_converter e) = [] then []
      else merged_candidates srt (config e) (dictionary_manager e) (prediction_engine e)
             (current_pinyin (pinyin_converter e)))"
  by (simp add: updateCandidates_def merged_candidates_def Let_def getCurrentPinyin_def
        setState_fields notify_fields split: option.splits)

lemma of_char_less_256: "(of_char c :: nat) < 256"
  by (cases c) (simp add: not_less)

lemma key_press_char: "char_of_key_code (key_code (key_press ch)) = ch"
proof -
  have "int (of_char ch) mod 256 = int (of_char ch)" using of_char_less_256[of ch] by simp
  then show ?thesis by (simp add: char_of_key_code_def key_press_def)
qed

lemma key_press_type: "event_type (key_press ch) = KEY_PRESS"
  by (simp add: key_press_def)

lemma lower_letter_codes:
  assumes "lower_letter ch"
  shows "97 \<le> (of_char ch :: nat)" "(of_char ch :: nat) \<le> 122"
  using assms by (simp_all add: lower_letter_def less_eq_char_def)

lemma tolower_lower: "lower_letter ch \<Longrightarrow> tolower ch = ch"
  using lower_letter_codes[of ch] by (auto simp: tolower_def less_eq_char_def)

lemma letter_step:
  assumes at: "engine_at cfg db pe B st cs e" and l: "lower_letter ch"
  shows "list_ex (prefix (B @ [ch])) STANDARD_PINYINS \<Longrightarrow>
           fst (processInput srt (key_press ch) e) = True \<and>
           engine_at cfg db pe (B @ [ch]) COMPOSING (merged_candidates srt cfg db pe (B @ [ch]))
             (snd (processInput srt (key_press ch) e))"
    and "\<not> list_ex (prefix (B @ [ch])) STANDARD_PINYINS \<Longrightarrow>
           processInput srt (key_press ch) e = (False, e)"
proof -
  have codes: "97 \<le> (of_char ch :: nat)" "(of_char ch :: nat) \<le> 122"
    using lower_letter_codes[OF l] .
  have kc: "key_code (key_press ch) \<noteq> 8" "key_code (key_press ch) \<noteq> 27"
    "key_code (key_press ch) \<noteq> 13"
    using codes by (auto simp: key_press_def)
  have nodigit: "\<not> ch \<le> CHR ''9''"
    using codes by (simp add: less_eq_char_def)
  have letter: "CHR ''a'' \<le> ch" "ch \<le> CHR ''z''"
    using l by (simp_all add: lower_letter_def)
  have conv: "pinyin_converter e = ready_converter B" using at by (simp add: engine_at_def)
  have hk: "processInput srt (key_press ch) e =
        (case addChar ch (ready_converter B) of
           (True, c') \<Rightarrow>
             (True, setState COMPOSING (updateCandidates srt (e\<lparr>pinyin_converter := c'\<rparr>)))
         | (False, c') \<Rightarrow> (False, e\<lparr>pinyin_converter := c'\<rparr>))"
    using kc nodigit letter
    by (simp add: processInput_def handleKeyPress_def key_press_char tolower_lower[OF l] conv
          Let_def key_press_type)
  {
    assume ok: "list_ex (prefix (B @ [ch])) STANDARD_PINYINS"
    have r: "processInput srt (key_press ch) e =
       (True, setState COMPOSING (updateCandidates srt (e\<lparr>pinyin_converter := ready_converter (B @ [ch])\<rparr>)))"
      using ok by (simp add: hk addChar_ready)
    show "fst (processInput srt (key_press ch) e) = True \<and>
           engine_at cfg db pe (B @ [ch]) COMPOSING (merged_candidates srt cfg db pe (B @ [ch]))
             (snd (processInput srt (key_press ch) e))"
      using at unfolding r
      by (simp add: engine_at_def setState_fields updateCandidates_fields
            updateCandidates_candidates ready_fields)
  }
  {
    assume no: "\<not> list_ex (prefix (B @ [ch])) STANDARD_PINYINS"
    have "e\<lparr>pinyin_converter := ready_converter B\<rparr> = e" using conv[symmetric] by simp
    then show "processInput srt (key_press ch) e = (False, e)"
      using no by (simp add: hk addChar_ready)
  }
qed

lemma backspace_step:
  assumes at: "engine_at cfg db pe B st cs e" and ne: "B \<noteq> []"
  shows "fst (processInput srt backspace_key e) = True \<and>
         engine_at cfg db pe (butlast B) (if butlast B = [] then IDLE else SELECTING)
           (if butlast B = [] then [] else merged_candidates srt cfg db pe (butlast B))
           (snd (processInput srt backspace_key e))"
proof -
  have conv: "pinyin_converter e = ready_converter B" "composition e = B"
    using at by (simp_all add: engine_at_def)
  have r: "processInput srt backspace_key e =
      (True, updateCandidates srt (e\<lparr>pinyin_converter := ready_converter (butlast B)\<rparr>))"
    using ne by (simp add: processInput_def handleKeyPress_def backspace_key_def conv
        removeLastChar_ready Let_def)
  show ?thesis using at unfolding r
    by (simp add: engine_at_def updateCandidates_fields updateCandidates_candidates ready_fields)
qed

subsection \<open>The sorting contract\<close>

lemma std_sort_ok_mset: "std_sort_ok srt \<Longrightarrow> mset (srt xs) = mset xs"
  by (simp add: std_sort_ok_def)


lemma std_sort_ok_Nil: "std_sort_ok srt \<Longrightarrow> srt [] = []"
  using std_sort_ok_mset[of srt "[]"] by simp

lemma std_sort_ok_single: "std_sort_ok srt \<Longrightarrow> srt [x] = [x]"
  using std_sort_ok_mset[of srt "[x]"] by simp

lemma stable_sort_desc_ok: "std_sort_ok stable_sort_desc"
proof -
  have "sorted_wrt (\<lambda>a b. \<not> score b > score a) (sort_key (\<lambda>c. - score c) xs)" for xs :: CandidateList
    using sorted_sort_key[of "\<lambda>c. - score c" xs]
    by (simp add: sorted_map not_less)
  then show ?thesis by (simp add: std_sort_ok_def stable_sort_desc_def)
qed

lemma reversing_sort_desc_ok: "std_sort_ok reversing_sort_desc"
proof -
  have "sorted_wrt (\<lambda>a b. \<not> score b > score a) (rev (sort_key score xs))" for xs :: CandidateList
    using sorted_sort_key[of score xs]
    by (simp add: sorted_map sorted_wrt_rev not_less)
  then show ?thesis by (simp add: std_sort_ok_def reversing_sort_desc_def)
qed

lemma new_engine_at:
  "engine_at cfg db (if enable_prediction cfg then pe else None) [] IDLE [] (new_engine cfg db pe)"
  by (simp add: engine_at_def new_engine_def)

lemma merged_no_predictor:
  assumes "std_sort_ok srt" "case pe of None \<Rightarrow> True | Some p \<Rightarrow> \<not> isAvailable p"
    and "searchByPinyin db buffer (max_candidates cfg) = ds" and "length ds \<le> 1"
    and "1 \<le> max_candidates cfg" "max_candidates cfg < 2 ^ 64"
  shows "merged_candidates srt cfg db pe buffer = ds"
proof -
  have s: "srt ds = ds"
  proof (cases ds)
    case Nil then show ?thesis using std_sort_ok_Nil[OF assms(1)] by simp
  next
    case (Cons a list)
    then have "ds = [a]" using assms(4) by simp
    then show ?thesis using std_sort_ok_single[OF assms(1)] by simp
  qed
  have "1 \<le> size_t_of_int (max_candidates cfg)" using assms(5,6) by (simp add: size_t_of_int_def)
  then have "\<not> length ds > size_t_of_int (max_candidates cfg)" using assms(4) by simp
  then show ?thesis using assms(2,3) s
    by (simp add: merged_candidates_def Let_def split: option.splits)
qed

lemma search_n: "searchByPinyin seeded_store ''n'' 9 = [nihao_candidate]" by code_simp
lemma search_ni: "searchByPinyin seeded_store ''ni'' 9 = [nihao_candidate]" by code_simp

lemma search_a: "searchByPinyin seeded_store ''a'' 9 = []" by code_simp
lemma search_ai: "searchByPinyin seeded_store ''ai'' 9 = []" by code_simp

lemma prefix_a: "list_ex (prefix ''a'') STANDARD_PINYINS" by code_simp
lemma prefix_ai: "list_ex (prefix ''ai'') STANDARD_PINYINS" by code_simp
lemma prefix_n: "list_ex (prefix ''n'') STANDARD_PINYINS" by code_simp

lemma lower_letters: "lower_letter (CHR ''n'')" "lower_letter (CHR ''i'')" "lower_letter (CHR ''h'')"
  "lower_letter (CHR ''a'')" "lower_letter (CHR ''o'')" "lower_letter (CHR ''d'')" "lower_letter (CHR ''e'')"
  by (simp_all add: lower_letter_def less_eq_char_def)

lemma press_keys_Cons:
  "press_keys srt (k # ks) e =
     (fst (processInput srt (key_press k) e) # fst (press_keys srt ks (snd (processInput srt (key_press k) e))),
      snd (press_keys srt ks (snd (processInput srt (key_press k) e))))"
  by (simp split: prod.splits)


subsection \<open>Merging predictions\<close>

lemma merge_predictions_set:
  "c \<in> set (merge_predictions thr preds cands) \<Longrightarrow>
     c \<in> set cands \<or> (c \<in> set preds \<and> text c \<notin> text ` set cands \<and> score c \<ge> thr)"
proof (induction preds arbitrary: cands)
  case Nil
  then show ?case by simp
next
  case (Cons p rest)
  let ?cands' = "if \<not> list_ex (\<lambda>existing. text existing = text p) cands \<and> score p \<ge> thr
                 then cands @ [p] else cands"
  from Cons.prems have "c \<in> set (merge_predictions thr rest ?cands')" by (simp add: Let_def)
  from Cons.IH[OF this] show ?case
    by (auto simp: list_ex_iff split: if_splits)
qed

lemma merge_predictions_filter:
  "t \<in> text ` set cands \<Longrightarrow>
     filter (\<lambda>c. text c = t) (merge_predictions thr preds cands) = filter (\<lambda>c. text c = t) cands"
proof (induction preds arbitrary: cands)
  case Nil
  then show ?case by simp
next
  case (Cons p rest)
  let ?cands' = "if \<not> list_ex (\<lambda>existing. text existing = text p) cands \<and> score p \<ge> thr
                 then cands @ [p] else cands"
  have t': "t \<in> text ` set ?cands'" using Cons.prems by auto
  have same: "filter (\<lambda>c. text c = t) ?cands' = filter (\<lambda>c. text c = t) cands"
    using Cons.prems by (auto simp: list_ex_iff)
  have "merge_predictions thr (p # rest) cands = merge_predictions thr rest ?cands'"
    by (simp add: Let_def)
  then show ?case using Cons.IH[OF t'] same by simp
qed

lemma filter_take_length: "length (filter P (take n xs)) \<le> length (filter P xs)"
proof -
  have "filter P xs = filter P (take n xs) @ filter P (drop n xs)"
    by (metis append_take_drop_id filter_append)
  then show ?thesis by simp
qed

lemma filter_sort_length:
  "std_sort_ok srt \<Longrightarrow> length (filter P (srt xs)) = length (filter P xs)"
proof -
  assume "std_sort_ok srt"
  then have "mset (filter P (srt xs)) = mset (filter P xs)"
    by (simp add: std_sort_ok_mset)
  then show ?thesis by (metis size_mset)
qed

lemma set_sort: "std_sort_ok srt \<Longrightarrow> set (srt xs) = set xs"
  by (metis std_sort_ok_mset set_mset_mset)

lemma searchByPinyin_not_prediction:
  "c \<in> set (searchByPinyin db q m) \<Longrightarrow> is_prediction c = False"
  using searchByPinyin_rows[of c db q m] by (auto simp: row_candidate_def Let_def)

lemma merged_candidates_dedup:
  assumes srt: "std_sort_ok srt"
    and d: "d \<in> set (searchByPinyin db B (max_candidates cfg))"
  shows "(\<forall>c \<in> set (merged_candidates srt cfg db pe B).
            text c = text d \<longrightarrow>
            c \<in> set (searchByPinyin db B (max_candidates cfg)) \<and> is_prediction c = False) \<and>
         length (filter (\<lambda>c. text c = text d) (merged_candidates srt cfg db pe B))
           \<le> length (filter (\<lambda>c. text c = text d) (searchByPinyin db B (max_candidates cfg)))"
proof -
  let ?dict = "searchByPinyin db B (max_candidates cfg)"
  let ?merged = "case pe of
               None \<Rightarrow> ?dict
             | Some p \<Rightarrow>
                 if isAvailable p
                 then merge_predictions (prediction_threshold cfg)
                        (predictFromPinyin p B []
                           (max 1 (max_candidates cfg - int (length ?dict))))
                        ?dict
                 else ?dict"
  have t: "text d \<in> text ` set ?dict" using d by simp
  have m1: "\<forall>c \<in> set ?merged. text c = text d \<longrightarrow> c \<in> set ?dict"
    using t by (auto split: option.splits dest!: merge_predictions_set)
  have m2: "filter (\<lambda>c. text c = text d) ?merged = filter (\<lambda>c. text c = text d) ?dict"
    using merge_predictions_filter[OF t] by (simp split: option.splits)
  have sub: "set (merged_candidates srt cfg db pe B) \<subseteq> set ?merged"
    unfolding merged_candidates_def Let_def
    by (auto simp: set_sort[OF srt] dest: in_set_takeD)
  have len: "length (filter (\<lambda>c. text c = text d) (merged_candidates srt cfg db pe B))
        \<le> length (filter (\<lambda>c. text c = text d) ?merged)"
    unfolding merged_candidates_def Let_def
    using filter_take_length[of "\<lambda>c. text c = text d" _ "srt ?merged"]
    by (simp add: filter_sort_length[OF srt])
  show ?thesis using m1 m2 sub len searchByPinyin_not_prediction by (auto simp: subset_iff)
qed

subsection \<open>Published candidate lists\<close>


















subsection \<open>State after key presses\<close>

lemma of_char_key_code: "int (of_char (char_of_key_code k)) = k mod 256"
  by (simp add: char_of_key_code_def of_nat_of_char)

lemma processInput_letter_state:
  assumes kp: "event_type ev = KEY_PRESS" and l: "is_letter_key ev"
    and ok: "fst (processInput srt ev e)"
  shows "state (snd (processInput srt ev e)) = COMPOSING"
proof -
  let ?ch = "char_of_key_code (key_code ev)"
  have letter: "(CHR ''a'' \<le> ?ch \<and> ?ch \<le> CHR ''z'') \<or> (CHR ''A'' \<le> ?ch \<and> ?ch \<le> CHR ''Z'')"
    using l by (simp add: is_letter_key_def Let_def)
  then have lo: "65 \<le> (of_char ?ch :: nat)" by (auto simp: less_eq_char_def)
  have k8: "key_code ev \<noteq> 8"
  proof
    assume "key_code ev = 8"
    then have "int (of_char ?ch) = 8" by (simp add: of_char_key_code)
    with lo show False by simp
  qed
  have k27: "key_code ev \<noteq> 27"
  proof
    assume "key_code ev = 27"
    then have "int (of_char ?ch) = 27" by (simp add: of_char_key_code)
    with lo show False by simp
  qed
  have k13: "key_code ev \<noteq> 13"
  proof
    assume "key_code ev = 13"
    then have "int (of_char ?ch) = 13" by (simp add: of_char_key_code)
    with lo show False by simp
  qed
  have nodigit: "\<not> ?ch \<le> CHR ''9''" using lo by (simp add: less_eq_char_def)
  have hk: "processInput srt ev e =
        (case addChar (tolower ?ch) (pinyin_converter e) of
           (True, c') \<Rightarrow>
             (True, setState COMPOSING (updateCandidates srt (e\<lparr>pinyin_converter := c'\<rparr>)))
         | (False, c') \<Rightarrow> (False, e\<lparr>pinyin_converter := c'\<rparr>))"
    using kp k8 k27 k13 nodigit letter
    by (simp add: processInput_def handleKeyPress_def Let_def)
  show ?thesis
    using ok unfolding hk
    by (auto simp: setState_fields split: prod.splits bool.splits)
qed

lemma processInput_backspace_state:
  assumes kp: "event_type ev = KEY_PRESS" and k: "key_code ev = 8" and ne: "composition e \<noteq> []"
  shows "fst (processInput srt ev e)"
    and "state (snd (processInput srt ev e)) =
           (if length (current_pinyin (pinyin_converter e)) \<le> 1 then IDLE else SELECTING)"
proof -
  have r: "processInput srt ev e =
      (True, updateCandidates srt
               (e\<lparr>pinyin_converter := snd (removeLastChar (pinyin_converter e))\<rparr>))"
    using kp k ne by (simp add: processInput_def handleKeyPress_def Let_def)
  show "fst (processInput srt ev e)" by (simp add: r)
  have "current_pinyin (snd (removeLastChar (pinyin_converter e))) = []
        \<longleftrightarrow> length (current_pinyin (pinyin_converter e)) \<le> 1"
    by (cases "current_pinyin (pinyin_converter e)" rule: rev_cases)
       (auto simp: removeLastChar_def)
  then show "state (snd (processInput srt ev e)) =
           (if length (current_pinyin (pinyin_converter e)) \<le> 1 then IDLE else SELECTING)"
    by (simp add: r updateCandidates_fields)
qed

lemma searchByPinyin_empty: "searchByPinyin [] q m = []"
  by (simp add: searchByPinyin_def Let_def order_rows_def sql_limit_def)

lemma key_press_is_letter: "lower_letter ch \<Longrightarrow> is_letter_key (key_press ch)"
  by (simp add: is_letter_key_def key_press_char lower_letter_def)

lemma letter_key_on_seeded_store:
  "fst (processInput stable_sort_desc (key_press (CHR ''n''))
          (new_engine default_config seeded_store None)) \<and>
   candidates (snd (processInput stable_sort_desc (key_press (CHR ''n''))
          (new_engine default_config seeded_store None))) = [nihao_candidate] \<and>
   state (snd (processInput stable_sort_desc (key_press (CHR ''n''))
          (new_engine default_config seeded_store None))) = COMPOSING"
proof -
  have pe: "case None :: PredictionEngine option of None \<Rightarrow> True | Some p \<Rightarrow> \<not> isAvailable p" by simp
  have a0: "engine_at default_config seeded_store None [] IDLE []
              (new_engine default_config seeded_store None)"
    using new_engine_at[of default_config seeded_store None] by simp
  have m: "merged_candidates stable_sort_desc default_config seeded_store None ''n'' = [nihao_candidate]"
    by (rule merged_no_predictor[OF stable_sort_desc_ok pe])
       (simp_all add: default_config_def search_n)
  show ?thesis
    using letter_step(1)[OF a0 lower_letters(1), of stable_sort_desc] prefix_n m
    by (simp add: engine_at_def)
qed

lemma backspace_without_candidates:
  "fst (processInput stable_sort_desc backspace_key
          (snd (press_keys stable_sort_desc ''ai'' (new_engine default_config seeded_store None)))) \<and>
   composition (snd (processInput stable_sort_desc backspace_key
          (snd (press_keys stable_sort_desc ''ai'' (new_engine default_config seeded_store None))))) = ''a'' \<and>
   candidates (snd (processInput stable_sort_desc backspace_key
          (snd (press_keys stable_sort_desc ''ai'' (new_engine default_config seeded_store None))))) = [] \<and>
   state (snd (processInput stable_sort_desc backspace_key
          (snd (press_keys stable_sort_desc ''ai'' (new_engine default_config seeded_store None))))) = SELECTING"
proof -
  let ?srt = stable_sort_desc
  let ?e0 = "new_engine default_config seeded_store None"
  have pe: "case None :: PredictionEngine option of None \<Rightarrow> True | Some p \<Rightarrow> \<not> isAvailable p"
    by simp
  have a0: "engine_at default_config seeded_store None [] IDLE [] ?e0"
    using new_engine_at[of default_config seeded_store None] by simp
  have m: "merged_candidates ?srt default_config seeded_store None ''a'' = []"
    "merged_candidates ?srt default_config seeded_store None ''ai'' = []"
    by (rule merged_no_predictor[OF stable_sort_desc_ok pe],
        simp_all add: default_config_def search_a search_ai)+
  let ?e1 = "snd (processInput ?srt (key_press (CHR ''a'')) ?e0)"
  have s1: "engine_at default_config seeded_store None ''a'' COMPOSING [] ?e1"
    using letter_step(1)[OF a0 lower_letters(4), of ?srt] prefix_a m by simp
  let ?e2 = "snd (processInput ?srt (key_press (CHR ''i'')) ?e1)"
  have s2: "engine_at default_config seeded_store None ''ai'' COMPOSING [] ?e2"
    using letter_step(1)[OF s1 lower_letters(2), of ?srt] prefix_ai m by simp
  have e2: "snd (press_keys ?srt ''ai'' ?e0) = ?e2"
    by (simp add: press_keys_Cons del: press_keys.simps(2))
  have "''ai'' \<noteq> []" by simp
  from backspace_step[OF s2 this, of ?srt] show ?thesis
    unfolding e2 by (simp add: engine_at_def m)
qed

subsection \<open>Concrete runs\<close>

lemma c_str_id: "CHR 0x00 \<notin> set s \<Longrightarrow> c_str s = s"
  by (auto simp: c_str_def)

lemma learnUserInput_result:
  assumes "txt \<noteq> []" "pinyin_sequence \<noteq> []"
  shows "fst (learnUserInput db txt pinyin_sequence)"
    and "filter (\<lambda>r. word r = c_str txt \<and> row_pinyin r = c_str (join_spaces pinyin_sequence))
           (snd (learnUserInput db txt pinyin_sequence)) =
         [\<lparr> word = c_str txt, row_pinyin = c_str (join_spaces pinyin_sequence),
            row_frequency = 1, is_user_word = True \<rparr>]"
    and "filter (\<lambda>r. \<not> (word r = c_str txt \<and> row_pinyin r = c_str (join_spaces pinyin_sequence)))
           (snd (learnUserInput db txt pinyin_sequence)) =
         filter (\<lambda>r. \<not> (word r = c_str txt \<and> row_pinyin r = c_str (join_spaces pinyin_sequence))) db"
  using assms by (simp_all add: learnUserInput_def addUserWord_def Let_def)

lemma addUserWord_unique:
  assumes "unique_rows db"
  shows "unique_rows (snd (addUserWord db w p freq))"
proof -
  let ?key = "\<lambda>r. (word r, row_pinyin r)"
  let ?keep = "\<lambda>r. \<not> (word r = c_str w \<and> row_pinyin r = c_str p)"
  have "distinct (map ?key (filter ?keep db))"
    using assms by (simp add: unique_rows_def distinct_map_filter)
  moreover have "(c_str w, c_str p) \<notin> ?key ` set (filter ?keep db)" by auto
  ultimately show ?thesis by (simp add: addUserWord_def unique_rows_def Let_def)
qed

lemma learnUserInput_unique:
  "unique_rows db \<Longrightarrow> unique_rows (snd (learnUserInput db txt pinyin_sequence))"
  by (simp add: learnUserInput_def addUserWord_unique)

lemma learn_existing:
  "filter (\<lambda>r. word r = word_nihao \<and> row_pinyin r = ''ni hao'') seeded_store =
     [\<lparr> word = word_nihao, row_pinyin = ''ni hao'', row_frequency = 100, is_user_word = False \<rparr>]"
  "fst (learnUserInput seeded_store word_nihao [''ni'', ''hao''])"
  "filter (\<lambda>r. word r = word_nihao \<and> row_pinyin r = ''ni hao'')
     (snd (learnUserInput seeded_store word_nihao [''ni'', ''hao''])) =
     [\<lparr> word = word_nihao, row_pinyin = ''ni hao'', row_frequency = 1, is_user_word = True \<rparr>]"
  by code_simp+

lemma learn_new_keeps_seeded:
  "filter (\<lambda>r. \<not> (word r = word_de \<and> row_pinyin r = ''de'')) seeded_store = seeded_store"
  by code_simp

lemma prefix_d: "list_ex (prefix ''d'') STANDARD_PINYINS" by code_simp
lemma prefix_de: "list_ex (prefix ''de'') STANDARD_PINYINS" by code_simp

lemma two_readings_search:
  "searchByPinyin two_readings_store ''de'' 9 =
     [\<lparr> text = word_de, pinyin = ''de'', score = 57, frequency = 100, is_prediction = False \<rparr>,
      \<lparr> text = word_de, pinyin = ''dei'', score = 47, frequency = 100, is_prediction = False \<rparr>]"
  by code_simp

lemma two_readings_predicted:
  "predictFromPinyin (loaded_prediction_engine word_de) ''de'' [] 7 =
     [\<lparr> text = word_de, pinyin = ''de'', score = 3 / 5, frequency = 0, is_prediction = True \<rparr>]"
  by code_simp

lemma two_readings_merged:
  "merged_candidates stable_sort_desc default_config two_readings_store
     (Some (loaded_prediction_engine word_de)) ''de'' =
     [\<lparr> text = word_de, pinyin = ''de'', score = 57, frequency = 100, is_prediction = False \<rparr>,
      \<lparr> text = word_de, pinyin = ''dei'', score = 47, frequency = 100, is_prediction = False \<rparr>]"
  by code_simp



section \<open>The scenario and the state machine\<close>




text \<open>
  C3 (as amended). After an accepted letter key the state is \<open>COMPOSING\<close>; after a
  backspace on a non-empty composition the state is \<open>SELECTING\<close> when the buffer had more
  than one character and \<open>IDLE\<close> when the buffer becomes empty. Neither depends on
  whether the recomputed candidate list is empty.
\<close>

theorem key_press_state:
  assumes "event_type ev = KEY_PRESS"
  shows "(is_letter_key ev \<and> fst (processInput srt ev e) \<longrightarrow>
            state (snd (processInput srt ev e)) = COMPOSING) \<and>
         (key_code ev = 8 \<and> composition e \<noteq> [] \<longrightarrow>
            fst (processInput srt ev e) \<and>
            state (snd (processInput srt ev e)) =
              (if length (current_pinyin (pinyin_converter e)) \<le> 1 then IDLE else SELECTING))"
  using processInput_letter_state[OF assms, of srt e]
    processInput_backspace_state[OF assms, of e srt]
  by blast

theorem key_press_state_witness:
  "event_type (key_press (CHR ''n'')) = KEY_PRESS \<and> is_letter_key (key_press (CHR ''n'')) \<and>
   fst (processInput stable_sort_desc (key_press (CHR ''n''))
          (new_engine default_config seeded_store None)) \<and>
   state (snd (processInput stable_sort_desc (key_press (CHR ''n''))
          (new_engine default_config seeded_store None))) = COMPOSING \<and>
   event_type backspace_key = KEY_PRESS \<and> key_code backspace_key = 8 \<and>
   composition (snd (press_keys stable_sort_desc ''ai''
                       (new_engine default_config seeded_store None))) \<noteq> [] \<and>
   state (snd (processInput stable_sort_desc backspace_key
          (snd (press_keys stable_sort_desc ''ai''
                  (new_engine default_config seeded_store None))))) = SELECTING"
proof -
  let ?e = "new_engine default_config seeded_store None"
  let ?e2 = "snd (press_keys stable_sort_desc ''ai'' ?e)"
  have kp: "event_type (key_press (CHR ''n'')) = KEY_PRESS" by (rule key_press_type)
  have lk: "is_letter_key (key_press (CHR ''n''))"
    by (rule key_press_is_letter[OF lower_letters(1)])
  have ok: "fst (processInput stable_sort_desc (key_press (CHR ''n'')) ?e)"
    using letter_key_on_seeded_store by simp
  have bk: "event_type backspace_key = KEY_PRESS" "key_code backspace_key = 8"
    by (simp_all add: backspace_key_def)
  have pe: "case None :: PredictionEngine option of None \<Rightarrow> True | Some p \<Rightarrow> \<not> isAvailable p"
    by simp
  have a0: "engine_at default_config seeded_store None [] IDLE [] ?e"
    using new_engine_at[of default_config seeded_store None] by simp
  have m: "merged_candidates stable_sort_desc default_config seeded_store None ''a'' = []"
    "merged_candidates stable_sort_desc default_config seeded_store None ''ai'' = []"
    by (rule merged_no_predictor[OF stable_sort_desc_ok pe],
        simp_all add: default_config_def search_a search_ai)+
  let ?e1 = "snd (processInput stable_sort_desc (key_press (CHR ''a'')) ?e)"
  have s1: "engine_at default_config seeded_store None ''a'' COMPOSING [] ?e1"
    using letter_step(1)[OF a0 lower_letters(4), of stable_sort_desc] prefix_a m by simp
  have s2: "engine_at default_config seeded_store None ''ai'' COMPOSING []
              (snd (processInput stable_sort_desc (key_press (CHR ''i'')) ?e1))"
    using letter_step(1)[OF s1 lower_letters(2), of stable_sort_desc] prefix_ai m by simp
  have e2: "?e2 = snd (processInput stable_sort_desc (key_press (CHR ''i'')) ?e1)"
    by (simp add: press_keys_Cons del: press_keys.simps(2))
  have comp: "composition ?e2 = ''ai''" "current_pinyin (pinyin_converter ?e2) = ''ai''"
    using s2 unfolding e2 by (simp_all add: engine_at_def ready_fields)
  show ?thesis
    using key_press_state[OF kp, of stable_sort_desc ?e] lk ok kp
      key_press_state[OF bk(1), of stable_sort_desc ?e2] bk comp
    by simp
qed

theorem key_press_state_counterexample:
  "fst (processInput stable_sort_desc (key_press (CHR ''n''))
          (new_engine default_config seeded_store None)) \<and>
   candidates (snd (processInput stable_sort_desc (key_press (CHR ''n''))
          (new_engine default_config seeded_store None))) = [nihao_candidate] \<and>
   state (snd (processInput stable_sort_desc (key_press (CHR ''n''))
          (new_engine default_config seeded_store None))) = COMPOSING \<and>
   fst (processInput stable_sort_desc backspace_key
          (snd (press_keys stable_sort_desc ''ai'' (new_engine default_config seeded_store None)))) \<and>
   composition (snd (processInput stable_sort_desc backspace_key
          (snd (press_keys stable_sort_desc ''ai'' (new_engine default_config seeded_store None))))) = ''a'' \<and>
   candidates (snd (processInput stable_sort_desc backspace_key
          (snd (press_keys stable_sort_desc ''ai'' (new_engine default_config seeded_store None))))) = [] \<and>
   state (snd (processInput stable_sort_desc backspace_key
          (snd (press_keys stable_sort_desc ''ai'' (new_engine default_config seeded_store None))))) = SELECTING"
  using letter_key_on_seeded_store backspace_without_candidates by simp

section \<open>Learning, merging and ranking\<close>

text \<open>
  C5 (as amended). For every non-empty text and non-empty pinyin sequence,
  \<open>learnUserInput\<close> succeeds and leaves exactly one row for the pair (text, space-joined
  pinyin), both read as NUL-terminated strings: a user word with frequency 1, whether or
  not the pair existed before (an existing entry is replaced, its frequency is not
  incremented). Rows of other pairs are unchanged.
\<close>

theorem learnUserInput_stores_frequency_1:
  assumes "txt \<noteq> []" and "pinyin_sequence \<noteq> []"
  shows "fst (learnUserInput db txt pinyin_sequence) \<and>
         filter (\<lambda>r. word r = c_str txt \<and> row_pinyin r = c_str (join_spaces pinyin_sequence))
           (snd (learnUserInput db txt pinyin_sequence)) =
           [\<lparr> word = c_str txt, row_pinyin = c_str (join_spaces pinyin_sequence),
              row_frequency = 1, is_user_word = True \<rparr>] \<and>
         filter (\<lambda>r. \<not> (word r = c_str txt \<and> row_pinyin r = c_str (join_spaces pinyin_sequence)))
           (snd (learnUserInput db txt pinyin_sequence)) =
           filter (\<lambda>r. \<not> (word r = c_str txt \<and> row_pinyin r = c_str (join_spaces pinyin_sequence)))
             db"
  using learnUserInput_result[OF assms, of db] by simp

theorem learnUserInput_stores_frequency_1_witness:
  "word_de \<noteq> [] \<and> [''de''] \<noteq> [] \<and> c_str word_de = word_de \<and> c_str (join_spaces [''de'']) = ''de'' \<and>
   fst (learnUserInput seeded_store word_de [''de'']) \<and>
   filter (\<lambda>r. word r = word_de \<and> row_pinyin r = ''de'')
     (snd (learnUserInput seeded_store word_de [''de''])) =
     [\<lparr> word = word_de, row_pinyin = ''de'', row_frequency = 1, is_user_word = True \<rparr>] \<and>
   filter (\<lambda>r. \<not> (word r = word_de \<and> row_pinyin r = ''de''))
     (snd (learnUserInput seeded_store word_de [''de''])) = seeded_store"
proof -
  have ne: "word_de \<noteq> []" "[''de''] \<noteq> ([] :: string list)" by (simp_all add: word_de_def)
  have cs: "c_str word_de = word_de" "c_str (join_spaces [''de'']) = ''de''"
    by (simp_all add: c_str_def word_de_def)
  have old: "filter (\<lambda>r. \<not> (word r = word_de \<and> row_pinyin r = ''de'')) seeded_store = seeded_store"
    by (rule learn_new_keeps_seeded)
  from learnUserInput_stores_frequency_1[OF ne, of seeded_store] ne cs old
  show ?thesis by simp
qed

theorem learnUserInput_counterexample:
  "filter (\<lambda>r. word r = word_nihao \<and> row_pinyin r = ''ni hao'') seeded_store =
     [\<lparr> word = word_nihao, row_pinyin = ''ni hao'', row_frequency = 100, is_user_word = False \<rparr>] \<and>
   fst (learnUserInput seeded_store word_nihao [''ni'', ''hao'']) \<and>
   filter (\<lambda>r. word r = word_nihao \<and> row_pinyin r = ''ni hao'')
     (snd (learnUserInput seeded_store word_nihao [''ni'', ''hao''])) =
     [\<lparr> word = word_nihao, row_pinyin = ''ni hao'', row_frequency = 1, is_user_word = True \<rparr>]"
  using learn_existing by blast

lemma loaded_available: "isAvailable (loaded_prediction_engine g)"
  by (simp add: isAvailable_def loaded_prediction_engine_def fixed_llm_def isModelLoaded_def)

lemma idle_unavailable: "\<not> isAvailable idle_prediction_engine"
  by (simp add: isAvailable_def idle_prediction_engine_def)

lemma nihao_predicted:
  "predictFromPinyin (loaded_prediction_engine word_nihao) ''ni'' [] 8 =
     [\<lparr> text = word_nihao, pinyin = ''ni'', score = 3 / 5, frequency = 0, is_prediction = True \<rparr>]"
  by code_simp

lemma nihao_merged:
  "merged_candidates stable_sort_desc default_config seeded_store
     (Some (loaded_prediction_engine word_nihao)) ''ni'' = [nihao_candidate]"
  by code_simp

text \<open>
  C6 (as amended). Whenever the dictionary search returns a candidate with some text for the
  current buffer, then, whatever the predictor returns, every candidate with that text in
  the merged list is one of the dictionary results, with \<open>is_prediction = false\<close>, and the
  text occurs in the merged list at most as often as among the dictionary results (so at
  most once when the dictionary returned it once).
\<close>

theorem merge_dedup:
  assumes "std_sort_ok srt" and "current_pinyin (pinyin_converter e) \<noteq> []"
    and "d \<in> set (searchByPinyin (dictionary_manager e) (current_pinyin (pinyin_converter e))
                     (max_candidates (config e)))"
  shows "(\<forall>c \<in> set (candidates (updateCandidates srt e)).
            text c = text d \<longrightarrow>
            c \<in> set (searchByPinyin (dictionary_manager e) (current_pinyin (pinyin_converter e))
                       (max_candidates (config e))) \<and>
            is_prediction c = False) \<and>
         length (filter (\<lambda>c. text c = text d) (candidates (updateCandidates srt e)))
           \<le> length (filter (\<lambda>c. text c = text d)
                 (searchByPinyin (dictionary_manager e) (current_pinyin (pinyin_converter e))
                    (max_candidates (config e))))"
  using merged_candidates_dedup[OF assms(1,3), of "prediction_engine e"] assms(2)
  by (simp add: updateCandidates_candidates)

theorem merge_dedup_witness:
  "std_sort_ok stable_sort_desc \<and>
   nihao_candidate \<in> set (searchByPinyin seeded_store ''ni'' 9) \<and>
   map text (predictFromPinyin (loaded_prediction_engine word_nihao) ''ni'' [] 8) = [text nihao_candidate] \<and>
   candidates (updateCandidates stable_sort_desc
      ((new_engine default_config seeded_store (Some (loaded_prediction_engine word_nihao)))
         \<lparr>pinyin_converter := ready_converter ''ni''\<rparr>)) = [nihao_candidate] \<and>
   is_prediction nihao_candidate = False"
proof -
  let ?e = "(new_engine default_config seeded_store (Some (loaded_prediction_engine word_nihao)))
         \<lparr>pinyin_converter := ready_converter ''ni''\<rparr>"
  have f: "current_pinyin (pinyin_converter ?e) = ''ni''" "dictionary_manager ?e = seeded_store"
    "max_candidates (config ?e) = 9" "config ?e = default_config"
    "prediction_engine ?e = Some (loaded_prediction_engine word_nihao)"
    by (simp_all add: new_engine_def ready_fields default_config_def)
  have ne: "current_pinyin (pinyin_converter ?e) \<noteq> []" unfolding f(1) by simp
  have d: "nihao_candidate \<in> set (searchByPinyin (dictionary_manager ?e)
              (current_pinyin (pinyin_converter ?e)) (max_candidates (config ?e)))"
    unfolding f(1,2,3) by (simp add: search_ni)
  have c: "candidates (updateCandidates stable_sort_desc ?e) = [nihao_candidate]"
    unfolding updateCandidates_candidates f(1,2,4,5) by (simp add: nihao_merged)
  from merge_dedup[OF stable_sort_desc_ok ne d] c stable_sort_desc_ok
  show ?thesis by (simp add: search_ni nihao_predicted nihao_candidate_def)
qed

theorem merge_dedup_counterexample:
  "map text (searchByPinyin two_readings_store ''de'' 9) = [word_de, word_de] \<and>
   map text (predictFromPinyin (loaded_prediction_engine word_de) ''de'' [] 7) = [word_de] \<and>
   map text (candidates (snd (press_keys stable_sort_desc ''de''
       (new_engine default_config two_readings_store (Some (loaded_prediction_engine word_de))))))
     = [word_de, word_de]"
proof -
  let ?pe = "Some (loaded_prediction_engine word_de)"
  let ?e0 = "new_engine default_config two_readings_store ?pe"
  have a0: "engine_at default_config two_readings_store ?pe [] IDLE [] ?e0"
    using new_engine_at[of default_config two_readings_store ?pe] by (simp add: default_config_def)
  let ?e1 = "snd (processInput stable_sort_desc (key_press (CHR ''d'')) ?e0)"
  have s1: "engine_at default_config two_readings_store ?pe ''d'' COMPOSING
              (merged_candidates stable_sort_desc default_config two_readings_store ?pe ''d'') ?e1"
    using letter_step(1)[OF a0 lower_letters(6), of stable_sort_desc] prefix_d by simp
  have s2: "engine_at default_config two_readings_store ?pe ''de'' COMPOSING
              (merged_candidates stable_sort_desc default_config two_readings_store ?pe ''de'')
              (snd (processInput stable_sort_desc (key_press (CHR ''e'')) ?e1))"
    using letter_step(1)[OF s1 lower_letters(7), of stable_sort_desc] prefix_de by simp
  have e2: "snd (press_keys stable_sort_desc ''de'' ?e0)
            = snd (processInput stable_sort_desc (key_press (CHR ''e'')) ?e1)"
    by (simp add: press_keys_Cons del: press_keys.simps(2))
  show ?thesis
    using s2 unfolding e2
    by (simp add: engine_at_def two_readings_merged two_readings_search two_readings_predicted)
qed






theorem unavailable_predicts_nothing_witness:
  "isAvailable (loaded_prediction_engine word_nihao) \<and>
   initialized (loaded_prediction_engine word_nihao) \<and>
   \<not> isAvailable idle_prediction_engine \<and>
   predictFromPinyin idle_prediction_engine ''ni'' [] 5 = [] \<and>
   predictNextWords stable_sort_desc idle_prediction_engine [] 5 = [] \<and>
   completePartialInput idle_prediction_engine ''ni'' 5 = []"
  using unavailable_predicts_nothing[of "loaded_prediction_engine word_nihao"]
    unavailable_predicts_nothing[of idle_prediction_engine "''ni''" "[]" 5 stable_sort_desc "''ni''"]
    loaded_available[of word_nihao] idle_unavailable
  by simp

end
